theory Spec2Isabelle
  imports Main "HOL-Library.Word" "HOL-Library.Signed_Division" "HOL-Library.AList"
begin

section \<open>Data model shared by the repairer, the checker and the audit verifier\<close>

text \<open>
  The protobuf messages of the satellite. Go's \<open>int32\<close> and \<open>int64\<close> fields are
  32 and 64 bit words read in two's complement (\<open>sint\<close>, \<open><s\<close>, \<open>\<le>s\<close>); a Go \<open>int\<close>
  holding a slice length is an \<open>int\<close>. Nested messages are pointers in Go, so they are
  options here: the getters (\<open>GetRemote\<close>, \<open>GetRemotePieces\<close>, ...) accept \<open>nil\<close>, a
  direct field access on \<open>nil\<close> panics. A \<open>nil\<close> slice is \<open>None\<close>.
\<close>

type_synonym int32 = "32 word"
type_synonym int64 = "64 word"
type_synonym NodeID = nat
type_synonym PieceID = nat
type_synonym Path = string
type_synonym Time = int
type_synonym bytes = "nat list"

datatype ext_error = ExtError nat

datatype 'e outcome = Return "'e option" | NilDeref | IndexOutOfRange

datatype DataType = INLINE | REMOTE

record RedundancyScheme =
  MinReq :: int32
  Total :: int32
  RepairThreshold :: int32
  SuccessThreshold :: int32
  ErasureShareSize :: int32

record RemotePiece =
  PieceNum :: int32
  NodeId :: NodeID
  Hash :: nat

record RemoteSegment =
  Redundancy :: "RedundancyScheme option"
  RootPieceId :: PieceID
  RemotePieces :: "RemotePiece list option"

record Pointer =
  Type :: DataType
  Remote :: "RemoteSegment option"
  SegmentSize :: int64
  CreationDate :: Time
  ExpirationDate :: Time

definition GetRemote :: "Pointer \<Rightarrow> RemoteSegment option" where
  "GetRemote p = Remote p"

definition GetRedundancy :: "RemoteSegment option \<Rightarrow> RedundancyScheme option" where
  "GetRedundancy r = (case r of None \<Rightarrow> None | Some rs \<Rightarrow> Redundancy rs)"

definition GetRemotePieces :: "RemoteSegment option \<Rightarrow> RemotePiece list option" where
  "GetRemotePieces r = (case r of None \<Rightarrow> None | Some rs \<Rightarrow> RemotePieces rs)"

text \<open>\<open>len\<close> and \<open>range\<close> treat a \<open>nil\<close> slice as the empty one.\<close>

definition elems :: "'a list option \<Rightarrow> 'a list" where
  "elems s = (case s of None \<Rightarrow> [] | Some xs \<Rightarrow> xs)"

definition int32_of :: "int \<Rightarrow> int32" where
  "int32_of n = word_of_int n"

section \<open>Segment repairer (satellite/repair/repairer/segments.go)\<close>

record Node =
  Id :: NodeID

record FindStorageNodesRequest =
  RequestedCount :: int
  FreeBandwidth :: int64
  FreeDisk :: int64
  ExcludedNodes :: "NodeID list"

datatype repair_error =
    ErrorWrap ext_error
  | CannotRepairInline Path
  | ErrorGettingMissingPieces ext_error
  | ErrorWrapIrreparable Path int int32
  | NoBucketComponent Path
  | Unwrapped ext_error
  | Combine "repair_error option" ext_error

text \<open>\<open>IrreparableError.Has\<close>: the error, or an error it wraps, is of the irreparable class.\<close>

fun IrreparableError_Has :: "repair_error \<Rightarrow> bool" where
  "IrreparableError_Has (ErrorWrapIrreparable p h req) = True"
| "IrreparableError_Has (Combine (Some e) c) = IrreparableError_Has e"
| "IrreparableError_Has e = False"

text \<open>The calls Repair makes on its collaborators that have an effect outside the repairer.\<close>

datatype repair_event =
    CreateGetRepairOrderLimits string "RemotePiece list"
  | FindStorageNodes FindStorageNodesRequest
  | CreatePutRepairOrderLimits string "Node list"
  | EcGet nat
  | RangerRange
  | EcRepair nat
  | ReaderClose
  | UpdatePieces Path Pointer "RemotePiece list" "RemotePiece list"

text \<open>
  The collaborators of the repairer are not part of the repairer's source: what each call
  returns is a field of the environment. \<open>totalNeeded\<close> stands for
  \<open>math.Ceil(float64(redundancy.OptimalThreshold()) * multiplierOptimalThreshold)\<close>, a
  floating point computation, given the optimal threshold.
\<close>

record repairer_env =
  metainfo_Get :: "Path \<Rightarrow> ext_error + Pointer"
  NewRedundancyStrategyFromProto :: "RedundancyScheme option \<Rightarrow> ext_error + int"
  CalcPieceSize :: "int64 \<Rightarrow> int64"
  cache_GetMissingPieces :: "RemotePiece list option \<Rightarrow> ext_error + int32 list"
  SplitPath :: "Path \<Rightarrow> string list"
  JoinPaths :: "string list \<Rightarrow> string"
  orders_CreateGetRepairOrderLimits :: "string \<Rightarrow> Pointer \<Rightarrow> RemotePiece list \<Rightarrow> ext_error + nat"
  totalNeeded :: "int \<Rightarrow> int"
  cache_FindStorageNodes :: "FindStorageNodesRequest \<Rightarrow> ext_error + Node list"
  orders_CreatePutRepairOrderLimits :: "string \<Rightarrow> Pointer \<Rightarrow> nat \<Rightarrow> Node list \<Rightarrow> ext_error + nat"
  ec_Get :: "nat \<Rightarrow> ext_error option"
  rr_Range :: "ext_error option"
  ec_Repair :: "nat \<Rightarrow> ext_error + (Node option list \<times> nat list)"
  r_Close :: "ext_error option"
  metainfo_UpdatePieces :: "Path \<Rightarrow> Pointer \<Rightarrow> RemotePiece list \<Rightarrow> RemotePiece list \<Rightarrow> ext_error option"

definition sliceToSet :: "int32 list \<Rightarrow> int32 \<Rightarrow> bool" where
  "sliceToSet xs = (\<lambda>v. v \<in> set xs)"

definition createBucketID :: "repairer_env \<Rightarrow> Path \<Rightarrow> repair_error + string" where
  "createBucketID env path =
     (let comps = SplitPath env path in
      if length comps < 3 then Inl (NoBucketComponent path)
      else Inr (JoinPaths env [comps ! 0, comps ! 2]))"

text \<open>
  The loop over \<open>successfulNodes\<close>: a piece for every node that is not \<open>nil\<close>, numbered by
  its index; \<open>hashes[i]\<close> panics when \<open>hashes\<close> is shorter.
\<close>

fun repaired_loop :: "nat \<Rightarrow> Node option list \<Rightarrow> nat list \<Rightarrow> RemotePiece list option" where
  "repaired_loop i [] hashes = Some []"
| "repaired_loop i (None # nodes) hashes = repaired_loop (Suc i) nodes hashes"
| "repaired_loop i (Some node # nodes) hashes =
     (if i < length hashes
      then map_option
             ((#) \<lparr>PieceNum = int32_of (int i), NodeId = Id node, Hash = hashes ! i\<rparr>)
             (repaired_loop (Suc i) nodes hashes)
      else None)"

definition healthyAfterRepair :: "RemotePiece list \<Rightarrow> RemotePiece list \<Rightarrow> int32" where
  "healthyAfterRepair healthyPieces repairedPieces =
     int32_of (int (length healthyPieces) + int (length repairedPieces))"

text \<open>\<open>repairedMap\<close> holds exactly the piece numbers of \<open>repairedPieces\<close>.\<close>

definition toRemove :: "RedundancyScheme \<Rightarrow> RemotePiece list \<Rightarrow> RemotePiece list \<Rightarrow>
    RemotePiece list \<Rightarrow> RemotePiece list" where
  "toRemove rs healthyPieces unhealthyPieces repairedPieces =
     (let repairedMap = (\<lambda>n. n \<in> set (map PieceNum repairedPieces)) in
      if SuccessThreshold rs \<le>s healthyAfterRepair healthyPieces repairedPieces
      then unhealthyPieces
      else filter (\<lambda>piece. repairedMap (PieceNum piece)) unhealthyPieces)"

text \<open>
  From the upload on: the reader is open, so the deferred \<open>r.Close()\<close> runs on every
  return and its error is combined into the returned one.
\<close>

definition Combine_close :: "repairer_env \<Rightarrow> repair_error outcome \<Rightarrow> repair_error outcome" where
  "Combine_close env res =
     (case res of
        Return err \<Rightarrow>
          (case r_Close env of None \<Rightarrow> Return err | Some c \<Rightarrow> Return (Some (Combine err c)))
      | other \<Rightarrow> other)"

definition Repair_upload :: "repairer_env \<Rightarrow> Path \<Rightarrow> Pointer \<Rightarrow> RedundancyScheme \<Rightarrow>
    RemotePiece list \<Rightarrow> RemotePiece list \<Rightarrow> nat \<Rightarrow> repair_error outcome \<times> repair_event list" where
  "Repair_upload env path pointer rs healthyPieces unhealthyPieces putLimits =
     (case ec_Repair env putLimits of
        Inl e \<Rightarrow> (Return (Some (ErrorWrap e)), [EcRepair putLimits])
      | Inr (successfulNodes, hashes) \<Rightarrow>
          (case repaired_loop 0 successfulNodes hashes of
             None \<Rightarrow> (IndexOutOfRange, [EcRepair putLimits])
           | Some repairedPieces \<Rightarrow>
               let rem = toRemove rs healthyPieces unhealthyPieces repairedPieces in
               (Return (map_option Unwrapped
                          (metainfo_UpdatePieces env path pointer repairedPieces rem)),
                [EcRepair putLimits, UpdatePieces path pointer repairedPieces rem])))"

definition Repair_segment :: "repairer_env \<Rightarrow> Path \<Rightarrow> Pointer \<Rightarrow> RedundancyScheme \<Rightarrow> int \<Rightarrow>
    RemotePiece list \<Rightarrow> int32 list \<Rightarrow> repair_error outcome \<times> repair_event list" where
  "Repair_segment env path pointer rs optimal pieces missingPieces =
     (let lostPiecesSet = sliceToSet missingPieces;
          excludeNodeIDs = map NodeId pieces;
          healthyPieces = filter (\<lambda>piece. \<not> lostPiecesSet (PieceNum piece)) pieces;
          unhealthyPieces = filter (\<lambda>piece. lostPiecesSet (PieceNum piece)) pieces;
          pieceSize = CalcPieceSize env (SegmentSize pointer)
      in
      case createBucketID env path of
        Inl e \<Rightarrow> (Return (Some e), [])
      | Inr bucketID \<Rightarrow>
      (case orders_CreateGetRepairOrderLimits env bucketID pointer healthyPieces of
        Inl e \<Rightarrow> (Return (Some (ErrorWrap e)), [CreateGetRepairOrderLimits bucketID healthyPieces])
      | Inr getOrderLimits \<Rightarrow>
      let requestCount = totalNeeded env optimal - int (length healthyPieces);
          request = \<lparr>RequestedCount = requestCount, FreeBandwidth = pieceSize,
                     FreeDisk = pieceSize, ExcludedNodes = excludeNodeIDs\<rparr>;
          ev1 = [CreateGetRepairOrderLimits bucketID healthyPieces, FindStorageNodes request]
      in
      (case cache_FindStorageNodes env request of
        Inl e \<Rightarrow> (Return (Some (ErrorWrap e)), ev1)
      | Inr newNodes \<Rightarrow>
      let ev2 = ev1 @ [CreatePutRepairOrderLimits bucketID newNodes] in
      (case orders_CreatePutRepairOrderLimits env bucketID pointer getOrderLimits newNodes of
        Inl e \<Rightarrow> (Return (Some (ErrorWrap e)), ev2)
      | Inr putLimits \<Rightarrow>
      let ev3 = ev2 @ [EcGet getOrderLimits] in
      (case ec_Get env getOrderLimits of
        Some e \<Rightarrow> (Return (Some (ErrorWrap e)), ev3)
      | None \<Rightarrow>
      let ev4 = ev3 @ [RangerRange] in
      (case rr_Range env of
        Some e \<Rightarrow> (Return (Some (ErrorWrap e)), ev4)
      | None \<Rightarrow>
      (case Repair_upload env path pointer rs healthyPieces unhealthyPieces putLimits of
        (res, ev5) \<Rightarrow> (Combine_close env res, ev4 @ ev5 @ [ReaderClose]))))))))"

definition Repair :: "repairer_env \<Rightarrow> Path \<Rightarrow> repair_error outcome \<times> repair_event list" where
  "Repair env path =
     (case metainfo_Get env path of
        Inl e \<Rightarrow> (Return (Some (ErrorWrap e)), [])
      | Inr pointer \<Rightarrow>
      if Type pointer \<noteq> REMOTE then (Return (Some (CannotRepairInline path)), [])
      else
      (case NewRedundancyStrategyFromProto env (GetRedundancy (GetRemote pointer)) of
        Inl e \<Rightarrow> (Return (Some (ErrorWrap e)), [])
      | Inr optimal \<Rightarrow>
      let pieces = GetRemotePieces (GetRemote pointer) in
      (case cache_GetMissingPieces env pieces of
        Inl e \<Rightarrow> (Return (Some (ErrorGettingMissingPieces e)), [])
      | Inr missingPieces \<Rightarrow>
      let numHealthy = int (length (elems pieces)) - int (length missingPieces) in
      (case Remote pointer of
        None \<Rightarrow> (NilDeref, [])
      | Some remote \<Rightarrow>
      (case Redundancy remote of
        None \<Rightarrow> (NilDeref, [])
      | Some rs \<Rightarrow>
      if int32_of numHealthy <s MinReq rs + 1
      then (Return (Some (ErrorWrapIrreparable path numHealthy (MinReq rs + 1))), [])
      else if RepairThreshold rs <s int32_of numHealthy
      then (Return None, [])
      else Repair_segment env path pointer rs optimal (elems pieces) missingPieces)))))"

text \<open>The calls that download, upload or write the pointer.\<close>

fun transfer_or_update :: "repair_event \<Rightarrow> bool" where
  "transfer_or_update (EcGet l) = True"
| "transfer_or_update RangerRange = True"
| "transfer_or_update (EcRepair l) = True"
| "transfer_or_update (UpdatePieces p ptr a r) = True"
| "transfer_or_update e = False"

text \<open>
  A segment with redundancy \<open>(k, r, s, n) = (2, 3, 4, 5)\<close> and five pieces, and a repairer
  environment in which every collaborator succeeds; the overlay reports the given piece
  numbers as missing.
\<close>

definition example_pieces :: "RemotePiece list" where
  "example_pieces =
     [\<lparr>PieceNum = 0, NodeId = 10, Hash = 100\<rparr>, \<lparr>PieceNum = 1, NodeId = 11, Hash = 101\<rparr>,
      \<lparr>PieceNum = 2, NodeId = 12, Hash = 102\<rparr>, \<lparr>PieceNum = 3, NodeId = 13, Hash = 103\<rparr>,
      \<lparr>PieceNum = 4, NodeId = 14, Hash = 104\<rparr>]"

definition example_redundancy :: RedundancyScheme where
  "example_redundancy =
     \<lparr>MinReq = 2, Total = 5, RepairThreshold = 3, SuccessThreshold = 4, ErasureShareSize = 256\<rparr>"

definition example_remote :: RemoteSegment where
  "example_remote =
     \<lparr>Redundancy = Some example_redundancy, RootPieceId = 7, RemotePieces = Some example_pieces\<rparr>"

definition example_pointer :: Pointer where
  "example_pointer =
     \<lparr>Type = REMOTE, Remote = Some example_remote, SegmentSize = 1024,
      CreationDate = 1, ExpirationDate = 0\<rparr>"

definition example_repairer_env :: "int32 list \<Rightarrow> repairer_env" where
  "example_repairer_env missing =
     \<lparr>metainfo_Get = (\<lambda>path. Inr example_pointer),
      NewRedundancyStrategyFromProto = (\<lambda>scheme. Inr 4),
      CalcPieceSize = (\<lambda>size. 512),
      cache_GetMissingPieces = (\<lambda>pieces. Inr missing),
      SplitPath = (\<lambda>path. [''project'', ''s0'', ''bucket'', ''object'']),
      JoinPaths = (\<lambda>comps. ''project/bucket''),
      orders_CreateGetRepairOrderLimits = (\<lambda>bucket pointer pieces. Inr 1),
      totalNeeded = (\<lambda>optimal. optimal),
      cache_FindStorageNodes = (\<lambda>request. Inr [\<lparr>Id = 20\<rparr>, \<lparr>Id = 21\<rparr>]),
      orders_CreatePutRepairOrderLimits = (\<lambda>bucket pointer limits nodes. Inr 2),
      ec_Get = (\<lambda>limits. None),
      rr_Range = None,
      ec_Repair = (\<lambda>limits. Inr ([None, None, None, Some \<lparr>Id = 20\<rparr>, Some \<lparr>Id = 21\<rparr>],
                                  [0, 0, 0, 203, 204])),
      r_Close = None,
      metainfo_UpdatePieces = (\<lambda>path pointer add rem. None)\<rparr>"

section \<open>Segment-health observer (package checker)\<close>

text \<open>
  The reliability cache, the repair queue and the irreparable store are collaborators of
  the observer: what their calls return is a field of the environment, the calls with an
  effect are logged. \<open>time_Now\<close> is the reading of the clock.
\<close>

record InjuredSegment =
  Injured_Path :: Path
  Injured_LostPieces :: "int32 list"
  InsertedTime :: Time

record IrreparableSegment =
  Irreparable_Path :: Path
  SegmentDetail :: Pointer
  Irreparable_LostPieces :: int32
  LastRepairAttempt :: int
  RepairAttemptCount :: int64

record durabilityStats =
  remoteFilesChecked :: int64
  remoteSegmentsChecked :: int64
  remoteSegmentsNeedingRepair :: int64
  remoteSegmentsLost :: int64
  remoteSegmentInfo :: "string list"

datatype checker_error = ErrorGettingMissing ext_error

datatype checker_event =
    RepairQueue_Insert InjuredSegment
  | Irrdb_Delete Path
  | Irrdb_IncrementRepairAttempts IrreparableSegment

record checker_env =
  nodestate_MissingPieces :: "Time \<Rightarrow> RemotePiece list option \<Rightarrow> ext_error + int32 list"
  time_Now :: Time
  repairQueue_Insert :: "InjuredSegment \<Rightarrow> ext_error option"
  irrdb_Delete :: "Path \<Rightarrow> ext_error option"
  irrdb_IncrementRepairAttempts :: "IrreparableSegment \<Rightarrow> ext_error option"
  storj_SplitPath :: "Path \<Rightarrow> string list"
  storj_JoinPaths :: "string list \<Rightarrow> string"

definition Unix :: "Time \<Rightarrow> int" where
  "Unix t = t div 1000000000"

definition contains :: "string list \<Rightarrow> string \<Rightarrow> bool" where
  "contains a x = (x \<in> set a)"

text \<open>The branch of a segment that is lost: it is counted and entered in the irreparable store.\<close>

definition RemoteSegment_lost :: "checker_env \<Rightarrow> durabilityStats \<Rightarrow> Path \<Rightarrow> Pointer \<Rightarrow>
    int32 list \<Rightarrow> checker_error outcome \<times> checker_event list \<times> durabilityStats" where
  "RemoteSegment_lost env monStats path pointer missingPieces =
     (let pathElements = storj_SplitPath env path;
          stats1 =
            (if 4 \<le> length pathElements
             then let lostSegInfo = storj_JoinPaths env
                        [pathElements ! 0, pathElements ! 2, pathElements ! 3]
                  in if contains (remoteSegmentInfo monStats) lostSegInfo = False
                     then monStats\<lparr>remoteSegmentInfo := remoteSegmentInfo monStats @ [lostSegInfo]\<rparr>
                     else monStats
             else monStats);
          stats2 = stats1\<lparr>remoteSegmentsLost := remoteSegmentsLost stats1 + 1\<rparr>;
          segmentInfo = \<lparr>Irreparable_Path = path, SegmentDetail = pointer,
                          Irreparable_LostPieces = int32_of (int (length missingPieces)),
                          LastRepairAttempt = Unix (time_Now env), RepairAttemptCount = 1\<rparr>
      in (Return None, [Irrdb_IncrementRepairAttempts segmentInfo], stats2))"

text \<open>
  \<open>RemoteSegment\<close> returns \<open>nil\<close> whether or not the queue and the store accept the
  calls: their errors are logged only.
\<close>

definition RemoteSegment :: "checker_env \<Rightarrow> durabilityStats \<Rightarrow> Path \<Rightarrow> Pointer \<Rightarrow>
    checker_error outcome \<times> checker_event list \<times> durabilityStats" where
  "RemoteSegment env monStats path pointer =
     (let stats1 = monStats\<lparr>remoteSegmentsChecked := remoteSegmentsChecked monStats + 1\<rparr>;
          remote = GetRemote pointer;
          pieces = GetRemotePieces remote
      in
      if pieces = None then (Return None, [], stats1)
      else
      (case nodestate_MissingPieces env (CreationDate pointer) pieces of
        Inl e \<Rightarrow> (Return (Some (ErrorGettingMissing e)), [], stats1)
      | Inr missingPieces \<Rightarrow>
      let numHealthy = int32_of (int (length (elems pieces)) - int (length missingPieces)) in
      (case Remote pointer of
        None \<Rightarrow> (NilDeref, [], stats1)
      | Some r \<Rightarrow>
      (case Redundancy r of
        None \<Rightarrow> (NilDeref, [], stats1)
      | Some redundancy \<Rightarrow>
      if MinReq redundancy <s numHealthy \<and> numHealthy \<le>s RepairThreshold redundancy
         \<and> numHealthy <s SuccessThreshold redundancy
      then
        if length missingPieces = 0 then (Return None, [], stats1)
        else
          let stats2 = stats1\<lparr>remoteSegmentsNeedingRepair :=
                                remoteSegmentsNeedingRepair stats1 + 1\<rparr>;
              item = \<lparr>Injured_Path = path, Injured_LostPieces = missingPieces,
                      InsertedTime = time_Now env\<rparr>
          in (case repairQueue_Insert env item of
                Some e \<Rightarrow> (Return None, [RepairQueue_Insert item], stats2)
              | None \<Rightarrow> (Return None, [RepairQueue_Insert item, Irrdb_Delete path], stats2))
      else if numHealthy \<le>s MinReq redundancy \<and> numHealthy <s RepairThreshold redundancy
      then RemoteSegment_lost env stats1 path pointer missingPieces
      else (Return None, [], stats1)))))"

text \<open>
  A reliability cache that holds the given piece numbers as missing, and a queue and a
  store that accept every call.
\<close>

definition example_checker_env :: "int32 list \<Rightarrow> checker_env" where
  "example_checker_env missing =
     \<lparr>nodestate_MissingPieces = (\<lambda>created pieces. Inr missing),
      time_Now = 1700000000000000000,
      repairQueue_Insert = (\<lambda>item. None),
      irrdb_Delete = (\<lambda>path. None),
      irrdb_IncrementRepairAttempts = (\<lambda>segment. None),
      storj_SplitPath = (\<lambda>path. [''project'', ''s0'', ''bucket'', ''object'']),
      storj_JoinPaths = (\<lambda>comps. ''project/bucket/object'')\<rparr>"

definition example_stats :: durabilityStats where
  "example_stats =
     \<lparr>remoteFilesChecked = 0, remoteSegmentsChecked = 0, remoteSegmentsNeedingRepair = 0,
      remoteSegmentsLost = 0, remoteSegmentInfo = []\<rparr>"

section \<open>Order verification on the storage node (package piecestore)\<close>

text \<open>
  An instant is a number of nanoseconds, the zero \<open>time.Time\<close> is 0; the identifiers and
  keys are numbers with 0 for the zero value of their type. \<open>Sub\<close> saturates at the ends
  of the 64 bit \<open>Duration\<close>.
\<close>

record OrderLimit =
  SerialNumber :: nat
  SatelliteId :: NodeID
  StorageNodeId :: NodeID
  UplinkPublicKey :: nat
  PieceId :: PieceID
  Limit :: int64
  PieceExpiration :: Time
  OrderExpiration :: Time
  OrderCreation :: Time
  SatelliteSignature :: bytes

record Order =
  Order_SerialNumber :: nat
  Amount :: int64


datatype grpc_code = InvalidArgument | PermissionDenied | Canceled | Unauthenticated

datatype trust_error = TrustCanceled | TrustError ext_error

datatype piecestore_error =
    StatusError grpc_code string
  | ErrProtocol string
  | ErrVerifyUntrusted string
  | ErrVerifyUntrustedWrap ext_error
  | Passed trust_error


record verify_env =
  trust_VerifySatelliteID :: "NodeID \<Rightarrow> ext_error option"
  trust_GetSignee :: "NodeID \<Rightarrow> trust_error + nat"
  signing_VerifyOrderLimitSignature :: "nat \<Rightarrow> OrderLimit \<Rightarrow> ext_error option"
  signing_VerifyUplinkOrderSignature :: "nat \<Rightarrow> Order \<Rightarrow> ext_error option"










definition VerifyOrder :: "verify_env \<Rightarrow> OrderLimit \<Rightarrow> Order \<Rightarrow> int64 \<Rightarrow>
    piecestore_error option" where
  "VerifyOrder env limit order largestOrderAmount =
     (if Order_SerialNumber order \<noteq> SerialNumber limit
      then Some (ErrProtocol ''order serial number changed during upload'')
      else if Amount order <s largestOrderAmount
      then Some (ErrProtocol ''order contained smaller amount'')
      else if Limit limit <s Amount order
      then Some (ErrProtocol ''order exceeded allowed amount'')
      else
      (case signing_VerifyUplinkOrderSignature env (UplinkPublicKey limit) order of
        Some e \<Rightarrow> Some (ErrVerifyUntrustedWrap e)
      | None \<Rightarrow> None))"




definition example_verify_env :: verify_env where
  "example_verify_env =
     \<lparr>trust_VerifySatelliteID = (\<lambda>satellite. None),
      trust_GetSignee = (\<lambda>satellite. Inr 1),
      signing_VerifyOrderLimitSignature = (\<lambda>signee limit. None),
      signing_VerifyUplinkOrderSignature = (\<lambda>key order. None)\<rparr>"

definition example_limit :: OrderLimit where
  "example_limit =
     \<lparr>SerialNumber = 77, SatelliteId = 1, StorageNodeId = 5, UplinkPublicKey = 9, PieceId = 3,
      Limit = 1024, PieceExpiration = 0, OrderExpiration = 2000000000000000000,
      OrderCreation = 1700000000000000000, SatelliteSignature = [1]\<rparr>"

section \<open>Audit verifier (package audit)\<close>

subsection \<open>Errors and shares\<close>

text \<open>
  The verifier looks at the error of a share through five tests only:
  \<open>transport.Error.Has\<close>, \<open>errs.Is(err, context.DeadlineExceeded)\<close> and
  \<open>errs2.IsRPC\<close> with the codes \<open>Unknown\<close>, \<open>NotFound\<close> and \<open>DeadlineExceeded\<close>. An
  error that comes from a collaborator is the record of what the five tests answer; the
  tests look through \<open>Error.Wrap\<close> and into both parts of \<open>errs.Combine\<close>.
\<close>

record err_obs =
  is_transport_Error :: bool
  is_context_DeadlineExceeded :: bool
  is_RPC_Unknown :: bool
  is_RPC_NotFound :: bool
  is_RPC_DeadlineExceeded :: bool

datatype audit_error =
    External err_obs
  | Error_Wrap audit_error
  | Combined audit_error audit_error
  | ErrNotEnoughShares int int
  | ErrSegmentDeleted Path
  | Other ext_error

fun observe :: "(err_obs \<Rightarrow> bool) \<Rightarrow> audit_error \<Rightarrow> bool" where
  "observe test (External obs) = test obs"
| "observe test (Error_Wrap e) = observe test e"
| "observe test (Combined a b) = (observe test a \<or> observe test b)"
| "observe test e = False"

definition transport_Error_Has :: "audit_error \<Rightarrow> bool" where
  "transport_Error_Has = observe is_transport_Error"

definition Is_context_DeadlineExceeded :: "audit_error \<Rightarrow> bool" where
  "Is_context_DeadlineExceeded = observe is_context_DeadlineExceeded"

datatype rpc_code = Unknown | NotFound | DeadlineExceeded

fun IsRPC :: "audit_error \<Rightarrow> rpc_code \<Rightarrow> bool" where
  "IsRPC e Unknown = observe is_RPC_Unknown e"
| "IsRPC e NotFound = observe is_RPC_NotFound e"
| "IsRPC e DeadlineExceeded = observe is_RPC_DeadlineExceeded e"

text \<open>\<open>errs.Combine\<close> of the error so far and the error of a deferred \<open>Close\<close>.\<close>

fun errs_Combine :: "audit_error option \<Rightarrow> audit_error option \<Rightarrow> audit_error option" where
  "errs_Combine None b = b"
| "errs_Combine (Some a) None = Some a"
| "errs_Combine (Some a) (Some b) = Some (Combined a b)"

record Share =
  Error :: "audit_error option"
  Share_PieceNum :: int
  Share_NodeID :: NodeID
  Data :: "bytes option"

definition Share_zero :: Share where
  "Share_zero = \<lparr>Error = None, Share_PieceNum = 0, Share_NodeID = 0, Data = None\<rparr>"

text \<open>An addressed order limit of the satellite always carries its order limit.\<close>

record AddressedOrderLimit =
  AOL_Limit :: OrderLimit
  StorageNodeAddress :: string

record infectious_Share =
  Number :: int
  Share_Data :: bytes

record Stripe =
  Index :: int64
  Segment :: Pointer
  SegmentPath :: Path

record PendingAudit =
  Pending_NodeID :: NodeID
  Pending_PieceID :: PieceID
  StripeIndex :: int64
  ShareSize :: int32
  ExpectedShareHash :: bytes
  Pending_Path :: Path

record Report =
  Successes :: "NodeID list"
  Fails :: "NodeID list"
  Offlines :: "NodeID list"
  PendingAudits :: "PendingAudit list"

datatype metainfo_error = ErrKeyNotFound | MetainfoError ext_error

text \<open>
  The collaborators of the verifier. The piece store calls take the timeout of the
  context they run under (\<open>None\<close> when the context of the caller is passed on as it is).
\<close>

record verifier_env =
  minBytesPerSecond :: int64
  minDownloadTimeout :: int64
  audit_SplitPath :: "Path \<Rightarrow> string list"
  audit_JoinPaths :: "string list \<Rightarrow> string"
  orders_CreateAuditOrderLimits :: "string option \<Rightarrow> Pointer \<Rightarrow> (NodeID \<Rightarrow> bool) \<Rightarrow>
    audit_error + AddressedOrderLimit option list"
  piecestore_Dial :: "int64 option \<Rightarrow> AddressedOrderLimit \<Rightarrow> audit_error option"
  ps_Download :: "int64 option \<Rightarrow> AddressedOrderLimit \<Rightarrow> int64 \<Rightarrow> int64 \<Rightarrow> audit_error option"
  io_ReadFull :: "AddressedOrderLimit \<Rightarrow> int32 \<Rightarrow> audit_error + bytes"
  downloader_Close :: "AddressedOrderLimit \<Rightarrow> audit_error option"
  audit_metainfo_Get :: "Path \<Rightarrow> metainfo_error + Pointer"
  audit_metainfo_UpdatePieces :: "Path \<Rightarrow> Pointer \<Rightarrow> RemotePiece list \<Rightarrow> ext_error option"
  infectious_NewFEC :: "int \<Rightarrow> int \<Rightarrow> audit_error option"
  fec_Correct :: "infectious_Share list \<Rightarrow> audit_error + infectious_Share list"
  fec_Rebuild :: "infectious_Share list \<Rightarrow> int \<Rightarrow> audit_error + bytes"
  fec_EncodeSingle :: "bytes \<Rightarrow> int \<Rightarrow> audit_error + bytes"
  SHA256Hash :: "bytes \<Rightarrow> bytes"

subsection \<open>GetShare\<close>

text \<open>
  The timeout of the context that \<open>GetShare\<close> dials and downloads with:
  \<open>int64(time.Second) * int64(shareSize) / minBytesPerSecond\<close> in 64 bit arithmetic, raised
  to \<open>minDownloadTimeout\<close>; no timeout is set unless \<open>minBytesPerSecond > 0\<close>. The
  quotient of two \<open>int64\<close> is truncated towards zero.
\<close>

definition int64_quo :: "int64 \<Rightarrow> int64 \<Rightarrow> int64" where
  "int64_quo a b = word_of_int (sint a sdiv sint b)"

definition timedCtx :: "verifier_env \<Rightarrow> int32 \<Rightarrow> int64 option" where
  "timedCtx verifier shareSize =
     (if 0 <s minBytesPerSecond verifier
      then let maxTransferTime =
             int64_quo (1000000000 * scast shareSize) (minBytesPerSecond verifier)
           in Some (if maxTransferTime <s minDownloadTimeout verifier
                    then minDownloadTimeout verifier else maxTransferTime)
      else None)"

definition GetShare :: "verifier_env \<Rightarrow> AddressedOrderLimit \<Rightarrow> int64 \<Rightarrow> int32 \<Rightarrow> int \<Rightarrow>
    Share \<times> audit_error option" where
  "GetShare verifier limit stripeIndex shareSize pieceNum =
     (let ctx = timedCtx verifier shareSize;
          storageNodeID = StorageNodeId (AOL_Limit limit)
      in
      case piecestore_Dial verifier ctx limit of
        Some e \<Rightarrow> (Share_zero, Some (Error_Wrap e))
      | None \<Rightarrow>
      let offset = scast shareSize * stripeIndex in
      (case ps_Download verifier ctx limit offset (scast shareSize) of
        Some e \<Rightarrow> (Share_zero, Some e)
      | None \<Rightarrow>
      (case io_ReadFull verifier limit shareSize of
        Inl e \<Rightarrow> (Share_zero, errs_Combine (Some e) (downloader_Close verifier limit))
      | Inr buf \<Rightarrow>
          (\<lparr>Error = None, Share_PieceNum = pieceNum, Share_NodeID = storageNodeID,
            Data = Some buf\<rparr>,
           errs_Combine None (downloader_Close verifier limit)))))"

subsection \<open>DownloadShares\<close>

text \<open>
  The goroutine of \<open>DownloadShares\<close> for the limit at index \<open>i\<close>: the share of
  \<open>GetShare\<close>, or a share that holds the error.
\<close>

definition download_share :: "verifier_env \<Rightarrow> int64 \<Rightarrow> int32 \<Rightarrow> nat \<Rightarrow> AddressedOrderLimit \<Rightarrow>
    Share" where
  "download_share verifier stripeIndex shareSize i limit =
     (case GetShare verifier limit stripeIndex shareSize (int i) of
        (share, None) \<Rightarrow> share
      | (share, Some err) \<Rightarrow>
          \<lparr>Error = Some err, Share_PieceNum = int i,
           Share_NodeID = StorageNodeId (AOL_Limit limit), Data = None\<rparr>)"

text \<open>
  The channel \<open>ch\<close> has a buffer of \<open>len(limits)\<close> places. A send of the main goroutine
  into a full buffer would never return, as nothing receives before the second loop; the
  model answers \<open>None\<close> then. The first loop sends \<open>nil\<close> for a \<open>nil\<close> limit and starts a
  goroutine for every other one.
\<close>

fun spawn_loop :: "nat \<Rightarrow> nat \<Rightarrow> AddressedOrderLimit option list \<Rightarrow> Share option list \<Rightarrow>
    (nat \<times> AddressedOrderLimit) list \<Rightarrow>
    (Share option list \<times> (nat \<times> AddressedOrderLimit) list) option" where
  "spawn_loop cap i [] buf started = Some (buf, started)"
| "spawn_loop cap i (None # limits) buf started =
     (if length buf < cap then spawn_loop cap (Suc i) limits (buf @ [None]) started else None)"
| "spawn_loop cap i (Some limit # limits) buf started =
     spawn_loop cap (Suc i) limits buf (started @ [(i, limit)])"

definition keep_share :: "Share option \<Rightarrow> (int \<times> Share) list \<Rightarrow> (int \<times> Share) list" where
  "keep_share received shares =
     (case received of
        None \<Rightarrow> shares
      | Some share \<Rightarrow> AList.update (Share_PieceNum share) share shares)"

text \<open>
  The second loop receives \<open>len(limits)\<close> times. A receive takes the oldest value of the
  buffer; when the buffer is empty it waits for a goroutine to send its share (the
  goroutines finish in the order they were started here; the shares are stored under
  their piece numbers, whatever the order). With the buffer empty and no goroutine left
  the receive would never return: \<open>None\<close>.
\<close>

fun collect_loop :: "verifier_env \<Rightarrow> int64 \<Rightarrow> int32 \<Rightarrow> nat \<Rightarrow> Share option list \<Rightarrow>
    (nat \<times> AddressedOrderLimit) list \<Rightarrow> (int \<times> Share) list \<Rightarrow> (int \<times> Share) list option" where
  "collect_loop verifier stripeIndex shareSize 0 buf started shares = Some shares"
| "collect_loop verifier stripeIndex shareSize (Suc n) (received # buf) started shares =
     collect_loop verifier stripeIndex shareSize n buf started (keep_share received shares)"
| "collect_loop verifier stripeIndex shareSize (Suc n) [] ((i, limit) # started) shares =
     collect_loop verifier stripeIndex shareSize n [] started
       (keep_share (Some (download_share verifier stripeIndex shareSize i limit)) shares)"
| "collect_loop verifier stripeIndex shareSize (Suc n) [] [] shares = None"

definition DownloadShares :: "verifier_env \<Rightarrow> AddressedOrderLimit option list \<Rightarrow> int64 \<Rightarrow> int32 \<Rightarrow>
    ((int \<times> Share) list \<times> audit_error option) option" where
  "DownloadShares verifier limits stripeIndex shareSize =
     (case spawn_loop (length limits) 0 limits [] [] of
        None \<Rightarrow> None
      | Some (buf, started) \<Rightarrow>
          (case collect_loop verifier stripeIndex shareSize (length limits) buf started [] of
             None \<Rightarrow> None
           | Some shares \<Rightarrow> Some (shares, None)))"

subsection \<open>Verify\<close>

definition audit_createBucketID :: "verifier_env \<Rightarrow> Path \<Rightarrow> string option" where
  "audit_createBucketID verifier path =
     (let comps = audit_SplitPath verifier path in
      if length comps < 3 then None
      else Some (audit_JoinPaths verifier [comps ! 0, comps ! 2]))"

definition GetMinReq :: "RedundancyScheme option \<Rightarrow> int32" where
  "GetMinReq r = (case r of None \<Rightarrow> 0 | Some rs \<Rightarrow> MinReq rs)"

definition GetTotal :: "RedundancyScheme option \<Rightarrow> int32" where
  "GetTotal r = (case r of None \<Rightarrow> 0 | Some rs \<Rightarrow> Total rs)"

definition GetErasureShareSize :: "RedundancyScheme option \<Rightarrow> int32" where
  "GetErasureShareSize r = (case r of None \<Rightarrow> 0 | Some rs \<Rightarrow> ErasureShareSize rs)"

definition getOfflineNodes :: "Pointer \<Rightarrow> AddressedOrderLimit option list \<Rightarrow> (NodeID \<Rightarrow> bool) \<Rightarrow>
    NodeID list" where
  "getOfflineNodes pointer limits skip =
     (let nodesWithLimit = (\<lambda>node. node \<in> set [StorageNodeId (AOL_Limit limit). Some limit \<leftarrow> limits])
      in map NodeId
           (filter (\<lambda>piece. \<not> nodesWithLimit (NodeId piece) \<and> \<not> skip (NodeId piece))
              (elems (GetRemotePieces (GetRemote pointer)))))"

definition checkIfSegmentDeleted :: "verifier_env \<Rightarrow> Path \<Rightarrow> Pointer option \<Rightarrow>
    audit_error + Pointer" where
  "checkIfSegmentDeleted verifier segmentPath oldPointer =
     (case audit_metainfo_Get verifier segmentPath of
        Inl ErrKeyNotFound \<Rightarrow> Inl (ErrSegmentDeleted segmentPath)
      | Inl (MetainfoError e) \<Rightarrow> Inl (Other e)
      | Inr newPointer \<Rightarrow>
          (case oldPointer of
             None \<Rightarrow> Inr newPointer
           | Some old \<Rightarrow>
               if CreationDate old \<noteq> CreationDate newPointer
               then Inl (ErrSegmentDeleted segmentPath)
               else Inr newPointer))"

text \<open>
  What the loop over the shares builds: a Go map is a list of keys and values here, the
  loop visits the shares in the order of that list and the node lists grow by appending.
\<close>

record audit_state =
  sharesToAudit :: "(int \<times> Share) list"
  offlineNodes :: "NodeID list"
  failedNodes :: "NodeID list"
  containedNodes :: "(int \<times> NodeID) list"

text \<open>
  One turn of the loop. The branch of the unknown transport error does not end the turn:
  the tests for \<open>NotFound\<close> and \<open>DeadlineExceeded\<close> follow it.
\<close>

definition classify_share :: "int \<Rightarrow> Share \<Rightarrow> audit_state \<Rightarrow> audit_state" where
  "classify_share pieceNum share st =
     (case Error share of
        None \<Rightarrow> st\<lparr>sharesToAudit := AList.update pieceNum share (sharesToAudit st)\<rparr>
      | Some err \<Rightarrow>
          if transport_Error_Has err \<and> Is_context_DeadlineExceeded err
          then st\<lparr>offlineNodes := offlineNodes st @ [Share_NodeID share]\<rparr>
          else if transport_Error_Has err \<and> IsRPC err Unknown
          then st\<lparr>offlineNodes := offlineNodes st @ [Share_NodeID share]\<rparr>
          else
            let st1 = (if transport_Error_Has err
                       then st\<lparr>containedNodes :=
                                 AList.update pieceNum (Share_NodeID share) (containedNodes st)\<rparr>
                       else st)
            in if IsRPC err NotFound
               then st1\<lparr>failedNodes := failedNodes st1 @ [Share_NodeID share]\<rparr>
               else if IsRPC err DeadlineExceeded
               then st1\<lparr>containedNodes :=
                          AList.update pieceNum (Share_NodeID share) (containedNodes st1)\<rparr>
               else st1\<lparr>containedNodes :=
                          AList.update pieceNum (Share_NodeID share) (containedNodes st1)\<rparr>)"

definition classify_shares :: "(int \<times> Share) list \<Rightarrow> audit_state \<Rightarrow> audit_state" where
  "classify_shares shares st = fold (\<lambda>(pieceNum, share). classify_share pieceNum share) shares st"

text \<open>Reading a Go map at a key it does not hold gives the zero value.\<close>

definition share_at :: "(int \<times> Share) list \<Rightarrow> int \<Rightarrow> Share" where
  "share_at shares pieceNum =
     (case map_of shares pieceNum of None \<Rightarrow> Share_zero | Some share \<Rightarrow> share)"

definition makeCopies :: "(int \<times> Share) list \<Rightarrow> infectious_Share list" where
  "makeCopies originals =
     map (\<lambda>(pieceNum, original).
            \<lparr>Number = Share_PieceNum original, Share_Data = elems (Data original)\<rparr>) originals"

definition auditShares :: "verifier_env \<Rightarrow> int \<Rightarrow> int \<Rightarrow> (int \<times> Share) list \<Rightarrow>
    audit_error + (int list \<times> infectious_Share list)" where
  "auditShares verifier required totalCount originals =
     (case infectious_NewFEC verifier required totalCount of
        Some e \<Rightarrow> Inl e
      | None \<Rightarrow>
          (case fec_Correct verifier (makeCopies originals) of
             Inl e \<Rightarrow> Inl e
           | Inr copies \<Rightarrow>
               Inr (map Number
                      (filter (\<lambda>share. elems (Data (share_at originals (Number share)))
                                         \<noteq> Share_Data share) copies),
                    copies)))"

datatype audit_event = Audit_UpdatePieces Path Pointer "RemotePiece list"

definition removeFailedPieces :: "verifier_env \<Rightarrow> Path \<Rightarrow> Pointer \<Rightarrow> NodeID list \<Rightarrow>
    audit_error option \<times> audit_event list" where
  "removeFailedPieces verifier path pointer failed =
     (if length failed = 0 then (None, [])
      else
        let toRemove = filter (\<lambda>piece. NodeId piece \<in> set failed)
                         (elems (GetRemotePieces (GetRemote pointer)))
        in (map_option Other (audit_metainfo_UpdatePieces verifier path pointer toRemove),
            [Audit_UpdatePieces path pointer toRemove]))"

definition getSuccessNodes :: "(int \<times> Share) list \<Rightarrow> NodeID list \<Rightarrow> NodeID list \<Rightarrow>
    (int \<times> NodeID) list \<Rightarrow> NodeID list" where
  "getSuccessNodes shares failed offline containedMap =
     (let fails = (\<lambda>node. node \<in> set failed \<or> node \<in> set offline \<or> node \<in> set (map snd containedMap))
      in filter (\<lambda>node. \<not> fails node) (map (\<lambda>(pieceNum, share). Share_NodeID share) shares))"

fun pending_loop :: "verifier_env \<Rightarrow> Stripe \<Rightarrow> RemoteSegment \<Rightarrow> int32 \<Rightarrow> bytes \<Rightarrow>
    (int \<times> NodeID) list \<Rightarrow> audit_error + PendingAudit list" where
  "pending_loop verifier stripe remote shareSize stripeData [] = Inr []"
| "pending_loop verifier stripe remote shareSize stripeData ((pieceNum, nodeID) # containedMap) =
     (case fec_EncodeSingle verifier stripeData pieceNum of
        Inl e \<Rightarrow> Inl (Error_Wrap e)
      | Inr share \<Rightarrow>
          (case pending_loop verifier stripe remote shareSize stripeData containedMap of
             Inl e \<Rightarrow> Inl e
           | Inr pending \<Rightarrow>
               Inr (\<lparr>Pending_NodeID = nodeID, Pending_PieceID = RootPieceId remote,
                     StripeIndex = Index stripe, ShareSize = shareSize,
                     ExpectedShareHash = SHA256Hash verifier share,
                     Pending_Path = SegmentPath stripe\<rparr> # pending)))"

text \<open>
  \<open>createPendingAudits\<close> reads \<open>RootPieceId\<close> of the remote part of the segment, which
  \<open>Verify\<close> has read before.
\<close>

definition createPendingAudits :: "verifier_env \<Rightarrow> (int \<times> NodeID) list \<Rightarrow> infectious_Share list \<Rightarrow>
    Stripe \<Rightarrow> RemoteSegment \<Rightarrow> audit_error + PendingAudit list" where
  "createPendingAudits verifier containedMap correctedShares stripe remote =
     (if length containedMap = 0 then Inr []
      else
        let redundancy = Redundancy remote;
            required = sint (GetMinReq redundancy);
            totalCount = sint (GetTotal redundancy);
            shareSize = GetErasureShareSize redundancy
        in case infectious_NewFEC verifier required totalCount of
             Some e \<Rightarrow> Inl (Error_Wrap e)
           | None \<Rightarrow>
               (case fec_Rebuild verifier correctedShares (sint shareSize) of
                  Inl e \<Rightarrow> Inl (Error_Wrap e)
                | Inr stripeData \<Rightarrow>
                    pending_loop verifier stripe remote shareSize stripeData containedMap))"

datatype verify_outcome =
    Returned "Report option" "audit_error option"
  | Verify_NilDeref
  | Verify_Blocked

definition Report_of :: "NodeID list \<Rightarrow> NodeID list \<Rightarrow> NodeID list \<Rightarrow> PendingAudit list \<Rightarrow> Report" where
  "Report_of successes fails offlines pending =
     \<lparr>Successes = successes, Fails = fails, Offlines = offlines, PendingAudits = pending\<rparr>"

text \<open>\<open>Verify\<close> from the count of the shares on, the shares being classified.\<close>

definition Verify_audit :: "verifier_env \<Rightarrow> Stripe \<Rightarrow> RemoteSegment \<Rightarrow> (int \<times> Share) list \<Rightarrow>
    audit_state \<Rightarrow> verify_outcome \<times> audit_event list" where
  "Verify_audit verifier stripe remote shares st =
     (let required = sint (GetMinReq (Redundancy remote));
          totalCount = sint (GetTotal (Redundancy remote))
      in
      if int (length (sharesToAudit st)) < required
      then (Returned (Some (Report_of [] (failedNodes st) (offlineNodes st) []))
              (Some (ErrNotEnoughShares (int (length (sharesToAudit st))) required)), [])
      else
      (case auditShares verifier required totalCount (sharesToAudit st) of
        Inl err \<Rightarrow>
          (Returned (Some (Report_of [] (failedNodes st) (offlineNodes st) [])) (Some err), [])
      | Inr (pieceNums, correctedShares) \<Rightarrow>
      let failed = failedNodes st @ map (\<lambda>pieceNum. Share_NodeID (share_at shares pieceNum)) pieceNums;
          removed = removeFailedPieces verifier (SegmentPath stripe) (Segment stripe) failed;
          successNodes = getSuccessNodes shares failed (offlineNodes st) (containedNodes st)
      in
      (case createPendingAudits verifier (containedNodes st) correctedShares stripe remote of
        Inl err \<Rightarrow>
          (Returned (Some (Report_of successNodes failed (offlineNodes st) [])) (Some err),
           snd removed)
      | Inr pendingAudits \<Rightarrow>
          (Returned (Some (Report_of successNodes failed (offlineNodes st) pendingAudits)) None,
           snd removed))))"

definition Verify :: "verifier_env \<Rightarrow> Stripe \<Rightarrow> (NodeID \<Rightarrow> bool) \<Rightarrow>
    verify_outcome \<times> audit_event list" where
  "Verify verifier stripe skip =
     (let pointer = Segment stripe;
          shareSize = GetErasureShareSize (GetRedundancy (GetRemote pointer));
          bucketID = audit_createBucketID verifier (SegmentPath stripe)
      in
      case orders_CreateAuditOrderLimits verifier bucketID pointer skip of
        Inl err \<Rightarrow> (Returned None (Some err), [])
      | Inr orderLimits \<Rightarrow>
      let offline = getOfflineNodes (Segment stripe) orderLimits skip in
      (case DownloadShares verifier orderLimits (Index stripe) shareSize of
        None \<Rightarrow> (Verify_Blocked, [])
      | Some (shares, Some err) \<Rightarrow> (Returned (Some (Report_of [] [] offline [])) (Some err), [])
      | Some (shares, None) \<Rightarrow>
      (case checkIfSegmentDeleted verifier (SegmentPath stripe) (Some (Segment stripe)) of
        Inl err \<Rightarrow> (Returned (Some (Report_of [] [] offline [])) (Some err), [])
      | Inr newPointer \<Rightarrow>
      let st = classify_shares shares
                 \<lparr>sharesToAudit = [], offlineNodes = offline, failedNodes = [],
                  containedNodes = []\<rparr>
      in
      (case Remote pointer of
        None \<Rightarrow> (Verify_NilDeref, [])
      | Some remote \<Rightarrow> Verify_audit verifier stripe remote shares st))))"

subsection \<open>Notions used to state the properties of the verifier\<close>

text \<open>
  The goroutines that the first loop of \<open>DownloadShares\<close> starts, from index \<open>i\<close> on,
  and the number of \<open>nil\<close> limits.
\<close>

definition started_from :: "nat \<Rightarrow> AddressedOrderLimit option list \<Rightarrow>
    (nat \<times> AddressedOrderLimit) list" where
  "started_from i limits = [(j, limit). (j, Some limit) \<leftarrow> enumerate i limits]"

definition nils :: "AddressedOrderLimit option list \<Rightarrow> nat" where
  "nils limits = length (filter (\<lambda>limit. limit = None) limits)"






text \<open>
  The deadline in the words of the spec, in nanoseconds:
  \<open>max(shareSize / minBytesPerSecond, minDownloadTimeout)\<close>.
\<close>

definition spec_deadline :: "int \<Rightarrow> int \<Rightarrow> int \<Rightarrow> int" where
  "spec_deadline shareSize bytesPerSecond floor =
     max ((1000000000 * shareSize) sdiv bytesPerSecond) floor"

text \<open>
  What \<open>GetShare\<close> returns when it dials and downloads under the context \<open>ctx\<close>: its
  lines from the dial on, the timeout of the context being given (\<open>None\<close> for the context
  of the caller).
\<close>

definition GetShare_under :: "int64 option \<Rightarrow> verifier_env \<Rightarrow> AddressedOrderLimit \<Rightarrow> int64 \<Rightarrow>
    int32 \<Rightarrow> int \<Rightarrow> Share \<times> audit_error option" where
  "GetShare_under ctx verifier limit stripeIndex shareSize pieceNum =
     (case piecestore_Dial verifier ctx limit of
        Some e \<Rightarrow> (Share_zero, Some (Error_Wrap e))
      | None \<Rightarrow>
      (case ps_Download verifier ctx limit (scast shareSize * stripeIndex) (scast shareSize) of
        Some e \<Rightarrow> (Share_zero, Some e)
      | None \<Rightarrow>
      (case io_ReadFull verifier limit shareSize of
        Inl e \<Rightarrow> (Share_zero, errs_Combine (Some e) (downloader_Close verifier limit))
      | Inr buf \<Rightarrow>
          (\<lparr>Error = None, Share_PieceNum = pieceNum,
            Share_NodeID = StorageNodeId (AOL_Limit limit), Data = Some buf\<rparr>,
           errs_Combine None (downloader_Close verifier limit)))))"

text \<open>
  \<open>GetShare\<close> applies the deadline of the spec: it returns what the dial and the download
  under that deadline give.
\<close>

definition applies_spec_deadline :: "verifier_env \<Rightarrow> AddressedOrderLimit \<Rightarrow> int64 \<Rightarrow> int32 \<Rightarrow>
    int \<Rightarrow> bool" where
  "applies_spec_deadline verifier limit stripeIndex shareSize pieceNum =
     (GetShare verifier limit stripeIndex shareSize pieceNum
        = GetShare_under
            (Some (word_of_int (spec_deadline (sint shareSize) (sint (minBytesPerSecond verifier))
                                  (sint (minDownloadTimeout verifier)))))
            verifier limit stripeIndex shareSize pieceNum)"

text \<open>
  The report is a partition: the four node sets are pairwise disjoint and their union
  is the set of the nodes of the segment without the skipped ones.
\<close>

definition report_partitions :: "Report \<Rightarrow> Pointer \<Rightarrow> (NodeID \<Rightarrow> bool) \<Rightarrow> bool" where
  "report_partitions report pointer skip =
     (let successes = set (Successes report); fails = set (Fails report);
          offlines = set (Offlines report);
          pending = set (map Pending_NodeID (PendingAudits report))
      in successes \<inter> fails = {} \<and> successes \<inter> offlines = {} \<and> successes \<inter> pending = {}
         \<and> fails \<inter> offlines = {} \<and> fails \<inter> pending = {} \<and> offlines \<inter> pending = {}
         \<and> successes \<union> fails \<union> offlines \<union> pending
             = {node \<in> set (map NodeId (elems (GetRemotePieces (GetRemote pointer)))). \<not> skip node})"

text \<open>
  A verifier for the example segment: the satellite hands out the given order limits,
  dialling a node fails as \<open>dial\<close> says, every download that is dialled succeeds, the
  erasure code finds nothing to correct.
\<close>

definition example_order_limit :: "NodeID \<Rightarrow> AddressedOrderLimit" where
  "example_order_limit node =
     \<lparr>AOL_Limit = example_limit\<lparr>StorageNodeId := node\<rparr>, StorageNodeAddress = ''address''\<rparr>"

definition example_verifier :: "int64 \<Rightarrow> (NodeID \<Rightarrow> audit_error option) \<Rightarrow>
    AddressedOrderLimit option list \<Rightarrow> metainfo_error + Pointer \<Rightarrow> verifier_env" where
  "example_verifier bytesPerSecond dial limits stored =
     \<lparr>minBytesPerSecond = bytesPerSecond, minDownloadTimeout = 5000000000,
      audit_SplitPath = (\<lambda>path. [''project'', ''s0'', ''bucket'', ''object'']),
      audit_JoinPaths = (\<lambda>comps. ''project/bucket''),
      orders_CreateAuditOrderLimits = (\<lambda>bucket pointer skip. Inr limits),
      piecestore_Dial = (\<lambda>ctx limit. dial (StorageNodeId (AOL_Limit limit))),
      ps_Download = (\<lambda>ctx limit offset size. None),
      io_ReadFull = (\<lambda>limit size. Inr [1, 2, 3]),
      downloader_Close = (\<lambda>limit. None),
      audit_metainfo_Get = (\<lambda>path. stored),
      audit_metainfo_UpdatePieces = (\<lambda>path pointer rem. None),
      infectious_NewFEC = (\<lambda>required totalCount. None),
      fec_Correct = (\<lambda>shares. Inr shares),
      fec_Rebuild = (\<lambda>shares size. Inr [1, 2, 3, 1, 2, 3]),
      fec_EncodeSingle = (\<lambda>stripe pieceNum. Inr [1, 2, 3]),
      SHA256Hash = (\<lambda>data. data)\<rparr>"

definition example_stripe :: Stripe where
  "example_stripe =
     \<lparr>Index = 0, Segment = example_pointer, SegmentPath = ''project/s0/bucket/object''\<rparr>"

text \<open>A dial that failed, and a transport error that carries the code \<open>NotFound\<close>.\<close>

definition dial_failed :: audit_error where
  "dial_failed =
     External \<lparr>is_transport_Error = True, is_context_DeadlineExceeded = False,
               is_RPC_Unknown = True, is_RPC_NotFound = False,
               is_RPC_DeadlineExceeded = False\<rparr>"

definition transport_not_found :: audit_error where
  "transport_not_found =
     External \<lparr>is_transport_Error = True, is_context_DeadlineExceeded = False,
               is_RPC_Unknown = False, is_RPC_NotFound = True,
               is_RPC_DeadlineExceeded = False\<rparr>"

definition dial_timeout :: audit_error where
  "dial_timeout =
     External \<lparr>is_transport_Error = True, is_context_DeadlineExceeded = True,
               is_RPC_Unknown = False, is_RPC_NotFound = False,
               is_RPC_DeadlineExceeded = False\<rparr>"

text \<open>
  A verifier whose nodes accept a connection after ten seconds: the dial succeeds unless
  its context has a timeout of less than ten seconds, which ends it with a dial timeout.
\<close>

definition example_slow_verifier :: "int64 \<Rightarrow> verifier_env" where
  "example_slow_verifier bytesPerSecond =
     (example_verifier bytesPerSecond (\<lambda>node. None) [] (Inr example_pointer))
       \<lparr>piecestore_Dial :=
          (\<lambda>ctx limit. case ctx of
                          None \<Rightarrow> None
                        | Some d \<Rightarrow> if d <s 10000000000 then Some dial_timeout else None)\<rparr>"


definition example_limits :: "AddressedOrderLimit option list" where
  "example_limits = map (\<lambda>node. Some (example_order_limit node)) [10, 11, 12, 13, 14]"

section \<open>Properties of the segment repairer\<close>

subsection \<open>Reading 32 bit values\<close>

lemma sint_int32_of: "- (2 ^ 31) \<le> n \<Longrightarrow> n < 2 ^ 31 \<Longrightarrow> sint (int32_of n) = n"
  by (simp add: int32_of_def sint_sbintrunc' signed_take_bit_int_eq_self)

lemma sint_succ32: "sint (w :: int32) < 2 ^ 31 - 1 \<Longrightarrow> sint (w + 1) = sint w + 1"
proof -
  assume a: "sint w < 2 ^ 31 - 1"
  have "- (2 ^ 31) \<le> sint w" using sint_ge [of w] by simp
  with a show ?thesis
    by (simp add: sint_word_add signed_take_bit_int_eq_self)
qed

subsection \<open>The health gate of Repair\<close>

text \<open>
  Claim C1. Let the pointer of the path be a remote segment whose redundancy strategy can be
  built and for whose pieces the overlay answers with the missing piece numbers, and let
  \<open>numHealthy\<close> be the number of pieces minus the number of missing pieces. If
  \<open>numHealthy < k + 1\<close>, Repair returns an error of the irreparable class and calls no
  collaborator, so the pointer is not updated. If \<open>numHealthy > r\<close>, Repair returns
  success and calls no collaborator either. A download, an upload or a pointer update
  is attempted only when \<open>k + 1 \<le> numHealthy \<le> r\<close>. The thresholds satisfy the
  invariant \<open>k \<le> r\<close> of the data model, and the counts fit 32 bits, so that
  \<open>int32(numHealthy)\<close> and \<open>MinReq + 1\<close> are exact.
\<close>

theorem Repair_health_gate:
  assumes ptr: "metainfo_Get env path = Inr pointer" "Type pointer = REMOTE"
      "Remote pointer = Some remote" "Redundancy remote = Some rs"
    and strat: "NewRedundancyStrategyFromProto env (Some rs) = Inr optimal"
    and miss: "cache_GetMissingPieces env (RemotePieces remote) = Inr missing"
    and inv: "sint (MinReq rs) \<le> sint (RepairThreshold rs)"
    and rng: "sint (MinReq rs) < 2 ^ 31 - 1"
      "int (length (elems (RemotePieces remote))) < 2 ^ 31" "int (length missing) \<le> 2 ^ 31"
  defines "numHealthy \<equiv> int (length (elems (RemotePieces remote))) - int (length missing)"
  shows "(numHealthy < sint (MinReq rs) + 1 \<longrightarrow>
            (\<exists>e. fst (Repair env path) = Return (Some e) \<and> IrreparableError_Has e) \<and>
            snd (Repair env path) = [])
       \<and> (sint (RepairThreshold rs) < numHealthy \<longrightarrow> Repair env path = (Return None, []))
       \<and> ((\<exists>ev \<in> set (snd (Repair env path)). transfer_or_update ev) \<longrightarrow>
            sint (MinReq rs) + 1 \<le> numHealthy \<and> numHealthy \<le> sint (RepairThreshold rs))"
proof -
  have nh: "sint (int32_of numHealthy) = numHealthy"
    using rng by (intro sint_int32_of) (simp_all add: numHealthy_def)
  have k1: "sint (MinReq rs + 1) = sint (MinReq rs) + 1"
    using rng by (simp add: sint_succ32)
  have low: "fst (Repair env path) = Return (Some (ErrorWrapIrreparable path numHealthy (MinReq rs + 1)))
      \<and> snd (Repair env path) = []" if "numHealthy < sint (MinReq rs) + 1"
    using that ptr strat miss nh k1
    by (simp add: Repair_def GetRemote_def GetRedundancy_def GetRemotePieces_def
        word_sless_alt numHealthy_def)
  have high: "Repair env path = (Return None, [])" if "sint (RepairThreshold rs) < numHealthy"
    using that ptr strat miss nh k1 inv
    by (simp add: Repair_def GetRemote_def GetRedundancy_def GetRemotePieces_def
        word_sless_alt numHealthy_def)
  have "snd (Repair env path) = []"
    if "\<not> (sint (MinReq rs) + 1 \<le> numHealthy \<and> numHealthy \<le> sint (RepairThreshold rs))"
    using that low high by fastforce
  then have gate: "(\<exists>ev \<in> set (snd (Repair env path)). transfer_or_update ev) \<longrightarrow>
      sint (MinReq rs) + 1 \<le> numHealthy \<and> numHealthy \<le> sint (RepairThreshold rs)"
    by fastforce
  from low high gate show ?thesis
    by (intro conjI impI) simp_all
qed

text \<open>
  With three of five pieces missing and \<open>k = 2\<close> the segment of the example is
  irreparable.
\<close>

theorem Repair_health_gate_witness:
  "(\<exists>e. fst (Repair (example_repairer_env [2, 3, 4]) ''project/s0/bucket/object'') = Return (Some e)
        \<and> IrreparableError_Has e)
   \<and> snd (Repair (example_repairer_env [2, 3, 4]) ''project/s0/bucket/object'') = []"
  using Repair_health_gate [of "example_repairer_env [2, 3, 4]" "''project/s0/bucket/object''"
      example_pointer example_remote example_redundancy 4 "[2, 3, 4]"]
  by (simp add: example_repairer_env_def example_pointer_def example_remote_def
      example_redundancy_def example_pieces_def elems_def)

subsection \<open>The pieces removed by the pointer update\<close>

lemma UpdatePieces_in_Repair_upload:
  assumes "UpdatePieces p ptr add rem \<in> set (snd (Repair_upload env path pointer rs h u pl))"
  shows "p = path \<and> ptr = pointer \<and> rem = toRemove rs h u add \<and>
    (\<exists>nodes hashes. ec_Repair env pl = Inr (nodes, hashes) \<and>
       repaired_loop 0 nodes hashes = Some add)"
  using assms
  by (auto simp: Repair_upload_def Let_def split: sum.splits option.splits prod.splits)

lemma UpdatePieces_in_Repair_segment:
  assumes "UpdatePieces p ptr add rem \<in> set (snd (Repair_segment env path pointer rs opt pieces missing))"
  shows "\<exists>pl. UpdatePieces p ptr add rem \<in> set (snd (Repair_upload env path pointer rs
       (filter (\<lambda>piece. PieceNum piece \<notin> set missing) pieces)
       (filter (\<lambda>piece. PieceNum piece \<in> set missing) pieces) pl))"
  using assms
  apply (auto simp: Repair_segment_def sliceToSet_def Let_def
      split: sum.splits option.splits prod.splits)
  by (metis snd_conv)

lemma UpdatePieces_in_Repair:
  assumes "UpdatePieces p ptr add rem \<in> set (snd (Repair env path))"
    and "metainfo_Get env path = Inr pointer"
    and "Remote pointer = Some remote" "Redundancy remote = Some rs"
    and "cache_GetMissingPieces env (RemotePieces remote) = Inr missing"
  shows "\<exists>opt. UpdatePieces p ptr add rem \<in>
     set (snd (Repair_segment env path pointer rs opt (elems (RemotePieces remote)) missing))"
  using assms
  by (auto simp: Repair_def GetRemote_def GetRemotePieces_def Let_def
      split: sum.splits option.splits if_splits)


lemma toRemove_cases:
  assumes "int (length h) + int (length add) < 2 ^ 31"
  shows "(sint (SuccessThreshold rs) \<le> int (length h) + int (length add) \<longrightarrow>
            toRemove rs h u add = u)
       \<and> (int (length h) + int (length add) < sint (SuccessThreshold rs) \<longrightarrow>
            toRemove rs h u add = filter (\<lambda>piece. PieceNum piece \<in> PieceNum ` set add) u)"
proof -
  have "sint (healthyAfterRepair h add) = int (length h) + int (length add)"
    using assms unfolding healthyAfterRepair_def by (intro sint_int32_of) simp_all
  then show ?thesis
    by (simp add: toRemove_def word_sle_eq)
qed

lemma uploaded_Cons:
  "{j. j < length (x # nodes) \<and> (x # nodes) ! j \<noteq> None}
     = (if x = None then {} else {0}) \<union> Suc ` {j. j < length nodes \<and> nodes ! j \<noteq> None}"
  by (auto simp: less_Suc_eq_0_disj image_iff)

lemma repaired_loop_PieceNums:
  "repaired_loop i nodes hashes = Some add \<Longrightarrow>
   PieceNum ` set add =
     (\<lambda>j. int32_of (int (i + j))) ` {j. j < length nodes \<and> nodes ! j \<noteq> None}"
proof (induction i nodes hashes arbitrary: add rule: repaired_loop.induct)
  case (1 i hashes)
  then show ?case by simp
next
  case (2 i nodes hashes)
  then show ?case
    by (simp only: uploaded_Cons) (simp add: image_image algebra_simps)
next
  case (3 i node nodes hashes)
  from "3.prems" obtain z where len: "i < length hashes"
    and z: "repaired_loop (Suc i) nodes hashes = Some z"
    and add: "add = \<lparr>PieceNum = int32_of (int i), NodeId = Id node, Hash = hashes ! i\<rparr> # z"
    by (auto split: if_splits)
  from "3.IH" [OF len z]
  have "PieceNum ` set z =
      (\<lambda>j. int32_of (int (Suc i + j))) ` {j. j < length nodes \<and> nodes ! j \<noteq> None}" .
  then show ?case
    unfolding add by (simp only: uploaded_Cons) (simp add: image_Un image_image algebra_simps)
qed

text \<open>
  Claim C3. When Repair reaches the pointer update, the pieces it adds are those built from
  the nodes of the upload that succeeded. With \<open>healthyAfter\<close> the number of healthy
  pieces plus the number of added pieces (a count that fits 32 bits): if
  \<open>healthyAfter \<ge> s\<close> the pieces to remove are all unhealthy pieces; if
  \<open>healthyAfter < s\<close> they are exactly the unhealthy pieces whose piece number is the
  number of an added piece, every other unhealthy piece stays in the pointer.
\<close>

theorem Repair_update_removes:
  assumes upd: "UpdatePieces p ptr add rem \<in> set (snd (Repair env path))"
    and ptr: "metainfo_Get env path = Inr pointer" "Remote pointer = Some remote"
      "Redundancy remote = Some rs"
    and miss: "cache_GetMissingPieces env (RemotePieces remote) = Inr missing"
    and rng: "int (length (elems (RemotePieces remote))) + int (length add) < 2 ^ 31"
  defines "healthyPieces \<equiv>
      filter (\<lambda>piece. PieceNum piece \<notin> set missing) (elems (RemotePieces remote))"
    and "unhealthyPieces \<equiv>
      filter (\<lambda>piece. PieceNum piece \<in> set missing) (elems (RemotePieces remote))"
  defines "healthyAfter \<equiv> int (length healthyPieces) + int (length add)"
  shows "(\<exists>putLimits nodes hashes. ec_Repair env putLimits = Inr (nodes, hashes) \<and>
            repaired_loop 0 nodes hashes = Some add)
       \<and> (sint (SuccessThreshold rs) \<le> healthyAfter \<longrightarrow> rem = unhealthyPieces)
       \<and> (healthyAfter < sint (SuccessThreshold rs) \<longrightarrow>
            rem = filter (\<lambda>piece. PieceNum piece \<in> PieceNum ` set add) unhealthyPieces)"
proof -
  from UpdatePieces_in_Repair [OF upd ptr miss] obtain opt where
    "UpdatePieces p ptr add rem \<in>
       set (snd (Repair_segment env path pointer rs opt (elems (RemotePieces remote)) missing))"
    by blast
  from UpdatePieces_in_Repair_segment [OF this] obtain pl where
    "UpdatePieces p ptr add rem \<in>
       set (snd (Repair_upload env path pointer rs healthyPieces unhealthyPieces pl))"
    unfolding healthyPieces_def unhealthyPieces_def by blast
  from UpdatePieces_in_Repair_upload [OF this]
  have rem: "rem = toRemove rs healthyPieces unhealthyPieces add"
    and up: "\<exists>nodes hashes. ec_Repair env pl = Inr (nodes, hashes) \<and>
       repaired_loop 0 nodes hashes = Some add"
    by simp_all
  have "int (length healthyPieces) \<le> int (length (elems (RemotePieces remote)))"
    unfolding healthyPieces_def by simp
  with rng have "int (length healthyPieces) + int (length add) < 2 ^ 31"
    by linarith
  from toRemove_cases [OF this, of rs unhealthyPieces] rem up show ?thesis
    unfolding healthyAfter_def by blast
qed

text \<open>
  In the example with pieces 3 and 4 missing both are uploaded again, the repair is full
  and both unhealthy pieces are removed.
\<close>

theorem Repair_update_removes_witness:
  "UpdatePieces ''project/s0/bucket/object'' example_pointer
      [\<lparr>PieceNum = 3, NodeId = 20, Hash = 203\<rparr>, \<lparr>PieceNum = 4, NodeId = 21, Hash = 204\<rparr>]
      [\<lparr>PieceNum = 3, NodeId = 13, Hash = 103\<rparr>, \<lparr>PieceNum = 4, NodeId = 14, Hash = 104\<rparr>]
     \<in> set (snd (Repair (example_repairer_env [3, 4]) ''project/s0/bucket/object''))
   \<and> [\<lparr>PieceNum = 3, NodeId = 13, Hash = 103\<rparr>, \<lparr>PieceNum = 4, NodeId = 14, Hash = 104\<rparr>]
     = filter (\<lambda>piece. PieceNum piece \<in> set [3, 4]) example_pieces"
proof -
  have upd: "UpdatePieces ''project/s0/bucket/object'' example_pointer
      [\<lparr>PieceNum = 3, NodeId = 20, Hash = 203\<rparr>, \<lparr>PieceNum = 4, NodeId = 21, Hash = 204\<rparr>]
      [\<lparr>PieceNum = 3, NodeId = 13, Hash = 103\<rparr>, \<lparr>PieceNum = 4, NodeId = 14, Hash = 104\<rparr>]
     \<in> set (snd (Repair (example_repairer_env [3, 4]) ''project/s0/bucket/object''))"
    by (simp add: Repair_def Repair_segment_def Repair_upload_def Combine_close_def toRemove_def
        healthyAfterRepair_def createBucketID_def sliceToSet_def GetRemote_def GetRedundancy_def
        GetRemotePieces_def elems_def int32_of_def example_repairer_env_def example_pointer_def
        example_remote_def example_redundancy_def example_pieces_def word_sless_alt word_sle_eq Let_def)
  from Repair_update_removes [OF upd, of example_pointer example_remote example_redundancy "[3, 4]"]
  show ?thesis using upd
    by (simp add: example_repairer_env_def example_pointer_def example_remote_def
        example_redundancy_def example_pieces_def elems_def)
qed

section \<open>Properties of the segment-health observer\<close>

lemma RemoteSegment_lost_events:
  "RepairQueue_Insert item \<notin> set (fst (snd (RemoteSegment_lost env st path pointer missing)))"
  by (simp add: RemoteSegment_lost_def Let_def)

text \<open>
  Claim C2. For a remote segment with redundancy \<open>(k, r, s)\<close>, \<open>k \<ge> 0\<close>, for which
  the reliability cache answers with the missing piece numbers, let \<open>numHealthy\<close> be the
  number of pieces minus the number of missing pieces (counts that fit 32 bits). The
  observer calls Insert on the repair queue if and only if
  \<open>k < numHealthy \<le> r\<close>, \<open>numHealthy < s\<close> and some piece is missing; the item it
  inserts is the path, the missing piece numbers and the time of the insertion. When
  \<open>k = r = s\<close> nothing is inserted.
\<close>

theorem RemoteSegment_enqueues_iff:
  fixes env :: checker_env and monStats :: durabilityStats and path :: Path
  assumes ptr: "Remote pointer = Some remote" "Redundancy remote = Some rs"
    and miss: "nodestate_MissingPieces env (CreationDate pointer) (RemotePieces remote) = Inr missing"
    and inv: "0 \<le> sint (MinReq rs)"
    and rng: "int (length (elems (RemotePieces remote))) < 2 ^ 31" "int (length missing) \<le> 2 ^ 31"
  defines "numHealthy \<equiv> int (length (elems (RemotePieces remote))) - int (length missing)"
    and "events \<equiv> fst (snd (RemoteSegment env monStats path pointer))"
  shows "((\<exists>item. RepairQueue_Insert item \<in> set events) \<longleftrightarrow>
            sint (MinReq rs) < numHealthy \<and> numHealthy \<le> sint (RepairThreshold rs)
            \<and> numHealthy < sint (SuccessThreshold rs) \<and> missing \<noteq> [])
       \<and> (\<forall>item. RepairQueue_Insert item \<in> set events \<longrightarrow>
            item = \<lparr>Injured_Path = path, Injured_LostPieces = missing,
                     InsertedTime = time_Now env\<rparr>)
       \<and> (MinReq rs = RepairThreshold rs \<and> RepairThreshold rs = SuccessThreshold rs \<longrightarrow>
            (\<forall>item. RepairQueue_Insert item \<notin> set events))"
proof -
  have nh: "sint (int32_of numHealthy) = numHealthy"
    using rng by (intro sint_int32_of) (simp_all add: numHealthy_def)
  show ?thesis
  proof (cases "RemotePieces remote")
    case None
    then have "events = []"
      using ptr by (simp add: events_def RemoteSegment_def GetRemote_def GetRemotePieces_def)
    moreover have "numHealthy \<le> 0"
      using None by (simp add: numHealthy_def elems_def)
    ultimately show ?thesis using inv by simp
  next
    case (Some pieces)
    then show ?thesis
      using ptr miss nh RemoteSegment_lost_events
      by (auto simp: events_def RemoteSegment_def GetRemote_def GetRemotePieces_def Let_def
          word_sless_alt word_sle_eq numHealthy_def split: option.splits)
  qed
qed

text \<open>With pieces 3 and 4 of the example missing, three of five pieces are healthy.\<close>

theorem RemoteSegment_enqueues_iff_witness:
  "RepairQueue_Insert
     \<lparr>Injured_Path = ''project/s0/bucket/object'', Injured_LostPieces = [3, 4],
      InsertedTime = 1700000000000000000\<rparr>
     \<in> set (fst (snd (RemoteSegment (example_checker_env [3, 4]) example_stats
                        ''project/s0/bucket/object'' example_pointer)))"
proof -
  let ?events = "fst (snd (RemoteSegment (example_checker_env [3, 4]) example_stats
                        ''project/s0/bucket/object'' example_pointer))"
  have "(\<exists>item. RepairQueue_Insert item \<in> set ?events)
      \<and> (\<forall>item. RepairQueue_Insert item \<in> set ?events \<longrightarrow>
            item = \<lparr>Injured_Path = ''project/s0/bucket/object'', Injured_LostPieces = [3, 4],
                     InsertedTime = 1700000000000000000\<rparr>)"
    using RemoteSegment_enqueues_iff [of example_pointer example_remote example_redundancy
        "example_checker_env [3, 4]" "[3, 4]" example_stats "''project/s0/bucket/object''"]
    by (simp add: example_checker_env_def example_pointer_def example_remote_def
        example_redundancy_def example_pieces_def elems_def)
  then show ?thesis by blast
qed


section \<open>Properties of the order verification\<close>

subsection \<open>Serial numbers are used once\<close>













subsection \<open>Orders against an order limit\<close>

text \<open>
  Claim C8. \<open>VerifyOrder\<close> rejects with a protocol error an order whose serial number
  differs from that of the limit, whose amount is smaller than the largest amount accepted
  before, or whose amount exceeds the limit. An order with the serial number of the limit,
  an amount of at least the previous amount and at most the limit, and a valid uplink
  signature is accepted.
\<close>

theorem VerifyOrder_checks:
  "(Order_SerialNumber order \<noteq> SerialNumber limit
      \<or> sint (Amount order) < sint largestOrderAmount
      \<or> sint (Limit limit) < sint (Amount order)
     \<longrightarrow> (\<exists>msg. VerifyOrder env limit order largestOrderAmount = Some (ErrProtocol msg)))
   \<and> (Order_SerialNumber order = SerialNumber limit
      \<and> sint largestOrderAmount \<le> sint (Amount order)
      \<and> sint (Amount order) \<le> sint (Limit limit)
      \<and> signing_VerifyUplinkOrderSignature env (UplinkPublicKey limit) order = None
     \<longrightarrow> VerifyOrder env limit order largestOrderAmount = None)"
  by (auto simp: VerifyOrder_def word_sless_alt)

text \<open>An order for 512 bytes after one for 256 is accepted, one for 128 is rejected.\<close>

theorem VerifyOrder_checks_witness:
  "VerifyOrder example_verify_env example_limit \<lparr>Order_SerialNumber = 77, Amount = 512\<rparr> 256 = None
   \<and> (\<exists>msg. VerifyOrder example_verify_env example_limit
          \<lparr>Order_SerialNumber = 77, Amount = 128\<rparr> 256 = Some (ErrProtocol msg))"
  using VerifyOrder_checks [of "\<lparr>Order_SerialNumber = 77, Amount = 512\<rparr>" example_limit 256
      example_verify_env]
    VerifyOrder_checks [of "\<lparr>Order_SerialNumber = 77, Amount = 128\<rparr>" example_limit 256
      example_verify_env]
  by (simp add: example_limit_def example_verify_env_def)


section \<open>Properties of the audit verifier\<close>

subsection \<open>The deadline of \<open>GetShare\<close>\<close>

lemma sint_scast_32_64: "sint (scast (w :: int32) :: int64) = sint w"
  by (simp add: sint_up_scast is_up)

lemma sint_second_times:
  "sint (1000000000 * scast (shareSize :: int32) :: int64) = 1000000000 * sint shareSize"
proof -
  have lo: "- (2 ^ 31) \<le> sint shareSize" and hi: "sint shareSize < 2 ^ 31"
    using sint_ge [of shareSize] sint_lt [of shareSize] by simp_all
  have "sint (1000000000 :: int64) = 1000000000" by simp
  then have "sint (1000000000 * scast shareSize :: int64)
      = signed_take_bit 63 (1000000000 * sint shareSize)"
    by (simp add: sint_word_mult sint_scast_32_64)
  also have "\<dots> = 1000000000 * sint shareSize"
    using lo hi by (intro signed_take_bit_int_eq_self) simp_all
  finally show ?thesis .
qed

lemma sint_int64_quo:
  assumes "- (2 ^ 63) < sint a"
  shows "sint (int64_quo a b) = sint a sdiv sint b"
proof -
  have "sint a sdiv sint b \<in> {- \<bar>sint a\<bar>..\<bar>sint a\<bar>}" by (rule sdiv_int_range)
  moreover have "sint a < 2 ^ 63" using sint_lt [of a] by simp
  ultimately have "- (2 ^ 63) \<le> sint a sdiv sint b" "sint a sdiv sint b < 2 ^ 63"
    using assms by auto
  then show ?thesis
    by (simp add: int64_quo_def sint_sbintrunc' signed_take_bit_int_eq_self)
qed

lemma timedCtx_deadline:
  "(0 < sint (minBytesPerSecond verifier) \<longrightarrow>
      (\<exists>d. timedCtx verifier shareSize = Some d \<and>
           sint d = max ((1000000000 * sint shareSize) sdiv sint (minBytesPerSecond verifier))
                        (sint (minDownloadTimeout verifier))))
   \<and> (sint (minBytesPerSecond verifier) \<le> 0 \<longrightarrow> timedCtx verifier shareSize = None)"
proof -
  have "- (2 ^ 31) \<le> sint shareSize" using sint_ge [of shareSize] by simp
  then have "- (2 ^ 63) < sint (1000000000 * scast shareSize :: int64)"
    by (simp add: sint_second_times)
  from sint_int64_quo [OF this, of "minBytesPerSecond verifier"]
  show ?thesis
    by (auto simp: timedCtx_def Let_def word_sless_alt sint_second_times max_def)
qed

lemma GetShare_timedCtx:
  "GetShare verifier limit stripeIndex shareSize pieceNum
     = GetShare_under (timedCtx verifier shareSize) verifier limit stripeIndex shareSize pieceNum"
  by (simp add: GetShare_def GetShare_under_def Let_def split: option.splits sum.splits)

text \<open>
  Claim C9, as the code has it. When \<open>minBytesPerSecond\<close> is positive, \<open>GetShare\<close> dials and
  downloads under a timeout of \<open>max(shareSize / minBytesPerSecond, minDownloadTimeout)\<close>,
  the quotient being \<open>time.Second * shareSize / minBytesPerSecond\<close> nanoseconds, truncated,
  without overflow: it returns what the dial and the download under that timeout give.
  When \<open>minBytesPerSecond\<close> is zero or negative it sets no deadline at all and dials and
  downloads under the context of its caller.
\<close>

theorem GetShare_deadline:
  "(0 < sint (minBytesPerSecond verifier) \<longrightarrow>
      (\<exists>d. sint d = max ((1000000000 * sint shareSize) sdiv sint (minBytesPerSecond verifier))
                        (sint (minDownloadTimeout verifier))
           \<and> GetShare verifier limit stripeIndex shareSize pieceNum
               = GetShare_under (Some d) verifier limit stripeIndex shareSize pieceNum))
   \<and> (sint (minBytesPerSecond verifier) \<le> 0 \<longrightarrow>
        GetShare verifier limit stripeIndex shareSize pieceNum
          = GetShare_under None verifier limit stripeIndex shareSize pieceNum)"
  using timedCtx_deadline [of verifier shareSize]
    GetShare_timedCtx [of verifier limit stripeIndex shareSize pieceNum]
  by auto

text \<open>
  At 128 bytes per second a share of 256 bytes gets two seconds, raised to the floor of
  five seconds; the slow node does not accept the connection in time.
\<close>

theorem GetShare_deadline_witness:
  "GetShare (example_slow_verifier 128) (example_order_limit 14) 0 256 4
     = (Share_zero, Some (Error_Wrap dial_timeout))"
proof -
  from GetShare_deadline [of "example_slow_verifier 128" 256 "example_order_limit 14" 0 4]
  obtain d :: int64 where d: "sint d = 5000000000"
    and get: "GetShare (example_slow_verifier 128) (example_order_limit 14) 0 256 4
        = GetShare_under (Some d) (example_slow_verifier 128) (example_order_limit 14) 0 256 4"
    by (auto simp: example_slow_verifier_def example_verifier_def)
  have "d <s 10000000000" using d by (simp add: word_sless_alt)
  then show ?thesis
    unfolding get
    by (simp add: GetShare_under_def example_slow_verifier_def example_verifier_def)
qed

text \<open>
  With \<open>minBytesPerSecond = 0\<close> the deadline of the spec is the floor of five seconds,
  under which the dial to the slow node times out. \<open>GetShare\<close> sets no deadline, the dial
  succeeds and the share is returned.
\<close>

theorem GetShare_deadline_counterexample:
  "GetShare (example_slow_verifier 0) (example_order_limit 14) 0 256 4
     = (\<lparr>Error = None, Share_PieceNum = 4, Share_NodeID = 14, Data = Some [1, 2, 3]\<rparr>, None)
   \<and> GetShare_under (Some (word_of_int (spec_deadline 256 0 5000000000)))
        (example_slow_verifier 0) (example_order_limit 14) 0 256 4
     = (Share_zero, Some (Error_Wrap dial_timeout))
   \<and> \<not> applies_spec_deadline (example_slow_verifier 0) (example_order_limit 14) 0 256 4"
proof -
  have spec: "spec_deadline 256 0 5000000000 = 5000000000"
    by (simp add: spec_deadline_def)
  have code: "GetShare (example_slow_verifier 0) (example_order_limit 14) 0 256 4
      = (\<lparr>Error = None, Share_PieceNum = 4, Share_NodeID = 14, Data = Some [1, 2, 3]\<rparr>, None)"
    by (simp add: GetShare_def timedCtx_def example_slow_verifier_def example_verifier_def
        example_order_limit_def example_limit_def)
  have under: "GetShare_under (Some (word_of_int (spec_deadline 256 0 5000000000)))
        (example_slow_verifier 0) (example_order_limit 14) 0 256 4
      = (Share_zero, Some (Error_Wrap dial_timeout))"
    by (simp add: spec GetShare_under_def example_slow_verifier_def example_verifier_def
        word_sless_alt)
  have "\<not> applies_spec_deadline (example_slow_verifier 0) (example_order_limit 14) 0 256 4"
    unfolding applies_spec_deadline_def code
    using under by (simp add: example_slow_verifier_def example_verifier_def Share_zero_def)
  with code under show ?thesis by simp
qed

subsection \<open>The map of \<open>DownloadShares\<close>\<close>

lemma started_from_simps:
  "started_from i [] = []"
  "started_from i (None # limits) = started_from (Suc i) limits"
  "started_from i (Some limit # limits) = (i, limit) # started_from (Suc i) limits"
  by (simp_all add: started_from_def)

lemma length_nils_started: "nils limits + length (started_from i limits) = length limits"
proof (induction limits arbitrary: i)
  case Nil
  then show ?case by (simp add: nils_def started_from_simps)
next
  case (Cons a limits)
  then show ?case
    by (cases a) (simp_all add: nils_def started_from_simps)
qed

lemma spawn_loop_result:
  "length buf + nils limits \<le> cap \<Longrightarrow>
   spawn_loop cap i limits buf started
     = Some (buf @ replicate (nils limits) None, started @ started_from i limits)"
proof (induction cap i limits buf started rule: spawn_loop.induct)
  case (1 cap i buf started)
  then show ?case by (simp add: nils_def started_from_simps)
next
  case (2 cap i limits buf started)
  then show ?case
    by (simp add: nils_def started_from_simps replicate_app_Cons_same)
next
  case (3 cap i limit limits buf started)
  then show ?case by (simp add: nils_def started_from_simps)
qed

lemma collect_loop_nils:
  "collect_loop verifier stripeIndex shareSize (m + n) (replicate m None) started shares
     = collect_loop verifier stripeIndex shareSize n [] started shares"
  by (induction m) (simp_all add: keep_share_def)

lemma collect_loop_started:
  "collect_loop verifier stripeIndex shareSize (length started) [] started shares
     = Some (fold (\<lambda>(i, limit). keep_share (Some (download_share verifier stripeIndex shareSize i limit)))
               started shares)"
  by (induction started arbitrary: shares) auto

lemma errs_Combine_Some [simp]: "errs_Combine (Some a) b \<noteq> None"
  by (cases b) simp_all

lemma Share_PieceNum_download_share [simp]:
  "Share_PieceNum (download_share verifier stripeIndex shareSize i limit) = int i"
  by (auto simp: download_share_def GetShare_def Let_def Share_zero_def
      split: option.splits sum.splits prod.splits)

lemma update_fresh: "k \<notin> fst ` set al \<Longrightarrow> AList.update k v al = al @ [(k, v)]"
  by (induction al) auto

lemma started_from_keys:
  "(j, limit) \<in> set (started_from i limits) \<longleftrightarrow> i \<le> j \<and> j < i + length limits \<and> limits ! (j - i) = Some limit"
proof (induction limits arbitrary: i)
  case Nil
  then show ?case by (simp add: started_from_simps)
next
  case (Cons a limits)
  show ?case
  proof (cases a)
    case None
    then show ?thesis
      using Cons [of "Suc i"] by (auto simp: started_from_simps nth_Cons' Suc_diff_le)
  next
    case (Some x)
    then show ?thesis
      using Cons [of "Suc i"]
      by (auto simp: started_from_simps nth_Cons' Suc_diff_le)
  qed
qed

lemma distinct_started_from: "distinct (map fst (started_from i limits))"
proof (induction limits arbitrary: i)
  case Nil
  then show ?case by (simp add: started_from_simps)
next
  case (Cons a limits)
  show ?case
  proof (cases a)
    case None
    then show ?thesis using Cons by (simp add: started_from_simps)
  next
    case (Some x)
    have "i \<notin> fst ` set (started_from (Suc i) limits)"
      by (auto simp: started_from_keys)
    then show ?thesis using Some Cons by (simp add: started_from_simps)
  qed
qed

lemma fold_keep_share:
  assumes "distinct (map fst started)"
    and "\<forall>(j, limit) \<in> set started. int j \<notin> fst ` set shares"
  shows "fold (\<lambda>(i, limit). keep_share (Some (download_share verifier stripeIndex shareSize i limit)))
           started shares
       = shares @ map (\<lambda>(i, limit). (int i, download_share verifier stripeIndex shareSize i limit))
                    started"
  using assms
proof (induction started arbitrary: shares)
  case Nil
  then show ?case by simp
next
  case (Cons a started)
  obtain i limit where a: "a = (i, limit)" by (cases a)
  have fresh: "int i \<notin> fst ` set shares" using Cons.prems(2) a by auto
  have "\<forall>(j, l) \<in> set started.
      int j \<notin> fst ` set (shares @ [(int i, download_share verifier stripeIndex shareSize i limit)])"
    using Cons.prems a by (auto simp: image_iff)
  with Cons.IH [of "shares @ [(int i, download_share verifier stripeIndex shareSize i limit)]"]
    Cons.prems(1) a fresh
  show ?case by (simp add: keep_share_def update_fresh)
qed

lemma DownloadShares_eq:
  "DownloadShares verifier limits stripeIndex shareSize
     = Some (map (\<lambda>(i, limit). (int i, download_share verifier stripeIndex shareSize i limit))
               (started_from 0 limits), None)"
proof -
  have len: "length limits = nils limits + length (started_from 0 limits)"
    by (simp add: length_nils_started)
  have "nils limits \<le> length limits" by (simp add: nils_def)
  then have spawn: "spawn_loop (length limits) 0 limits [] []
      = Some (replicate (nils limits) None, started_from 0 limits)"
    using spawn_loop_result [of "[]" limits "length limits" 0 "[]"] by simp
  have "collect_loop verifier stripeIndex shareSize (length limits)
          (replicate (nils limits) None) (started_from 0 limits) []
      = Some (map (\<lambda>(i, limit). (int i, download_share verifier stripeIndex shareSize i limit))
                (started_from 0 limits))"
    by (subst len) (simp add: collect_loop_nils collect_loop_started fold_keep_share
        distinct_started_from)
  with spawn show ?thesis by (simp add: DownloadShares_def)
qed

lemma map_of_downloaded:
  "map_of (map (\<lambda>(i, limit). (int i, f i limit)) (started_from 0 limits)) k
     = (if 0 \<le> k \<and> nat k < length limits
        then map_option (f (nat k)) (limits ! nat k) else None)"
proof -
  show ?thesis
  proof (cases "0 \<le> k \<and> nat k < length limits \<and> limits ! nat k \<noteq> None")
    case True
    then obtain limit where l: "limits ! nat k = Some limit" by auto
    with True have "(nat k, limit) \<in> set (started_from 0 limits)"
      by (simp add: started_from_keys)
    then have "(k, f (nat k) limit)
        \<in> set (map (\<lambda>(i, limit). (int i, f i limit)) (started_from 0 limits))"
      using True by (force simp: image_iff)
    moreover have "distinct (map fst (map (\<lambda>(i, limit). (int i, f i limit)) (started_from 0 limits)))"
      using distinct_started_from [of 0 limits]
      by (simp add: distinct_map comp_def case_prod_unfold inj_on_def)
    ultimately show ?thesis using True l by simp
  next
    case False
    then have "k \<notin> fst ` set (map (\<lambda>(i, limit). (int i, f i limit)) (started_from 0 limits))"
      by (auto simp: started_from_keys)
    then have "map_of (map (\<lambda>(i, limit). (int i, f i limit)) (started_from 0 limits)) k = None"
      by (simp add: map_of_eq_None_iff)
    with False show ?thesis by (cases "limits ! nat k") auto
  qed
qed

lemma download_share_cases:
  "Share_PieceNum (download_share verifier stripeIndex shareSize i limit) = int i \<and>
   (case snd (GetShare verifier limit stripeIndex shareSize (int i)) of
      None \<Rightarrow> download_share verifier stripeIndex shareSize i limit
               = fst (GetShare verifier limit stripeIndex shareSize (int i))
    | Some err \<Rightarrow>
        Error (download_share verifier stripeIndex shareSize i limit) = Some err \<and>
        Data (download_share verifier stripeIndex shareSize i limit) = None)"
proof -
  have "Share_PieceNum (download_share verifier stripeIndex shareSize i limit) = int i"
    by (rule Share_PieceNum_download_share)
  moreover have "case snd (GetShare verifier limit stripeIndex shareSize (int i)) of
      None \<Rightarrow> download_share verifier stripeIndex shareSize i limit
               = fst (GetShare verifier limit stripeIndex shareSize (int i))
    | Some err \<Rightarrow>
        Error (download_share verifier stripeIndex shareSize i limit) = Some err \<and>
        Data (download_share verifier stripeIndex shareSize i limit) = None"
    by (cases "GetShare verifier limit stripeIndex shareSize (int i)")
      (simp add: download_share_def split: option.splits)
  ultimately show ?thesis by simp
qed

text \<open>
  Claim C10. \<open>DownloadShares\<close> always returns, with a \<open>nil\<close> error and a map that holds
  exactly one share for every limit that is not \<open>nil\<close>, under the index of the limit, which
  is the piece number of the share, and nothing for a \<open>nil\<close> limit or any other key. The
  share is the one of \<open>GetShare\<close> when that succeeded; when it failed, the share holds the
  error and no data.
\<close>

theorem DownloadShares_result:
  "\<exists>shares. DownloadShares verifier limits stripeIndex shareSize = Some (shares, None)
     \<and> distinct (map fst shares)
     \<and> (\<forall>k. map_of shares k =
            (if 0 \<le> k \<and> nat k < length limits
             then map_option (download_share verifier stripeIndex shareSize (nat k)) (limits ! nat k)
             else None))
     \<and> (\<forall>i limit. i < length limits \<and> limits ! i = Some limit \<longrightarrow>
            Share_PieceNum (download_share verifier stripeIndex shareSize i limit) = int i \<and>
            (case snd (GetShare verifier limit stripeIndex shareSize (int i)) of
               None \<Rightarrow> download_share verifier stripeIndex shareSize i limit
                        = fst (GetShare verifier limit stripeIndex shareSize (int i))
             | Some err \<Rightarrow>
                 Error (download_share verifier stripeIndex shareSize i limit) = Some err \<and>
                 Data (download_share verifier stripeIndex shareSize i limit) = None))"
proof -
  let ?shares = "map (\<lambda>(i, limit). (int i, download_share verifier stripeIndex shareSize i limit))
                   (started_from 0 limits)"
  have "distinct (map fst ?shares)"
    using distinct_started_from [of 0 limits]
    by (simp add: distinct_map comp_def case_prod_unfold inj_on_def)
  then show ?thesis
    using download_share_cases [of verifier stripeIndex shareSize]
    by (simp add: DownloadShares_eq map_of_downloaded)
qed

theorem DownloadShares_result_witness:
  "\<exists>shares.
     DownloadShares
       (example_verifier 128 (\<lambda>node. if node = 14 then Some dial_failed else None) [] (Inr example_pointer))
       [None, Some (example_order_limit 11), None, None, Some (example_order_limit 14)] 0 256
       = Some (shares, None)
     \<and> map_of shares 0 = None
     \<and> map_of shares 1 = Some \<lparr>Error = None, Share_PieceNum = 1, Share_NodeID = 11, Data = Some [1, 2, 3]\<rparr>
     \<and> map_of shares 4 = Some \<lparr>Error = Some (Error_Wrap dial_failed), Share_PieceNum = 4, Share_NodeID = 14, Data = None\<rparr>
     \<and> map_of shares 5 = None"
  using DownloadShares_result
    [of "example_verifier 128 (\<lambda>node. if node = 14 then Some dial_failed else None) [] (Inr example_pointer)"
        "[None, Some (example_order_limit 11), None, None, Some (example_order_limit 14)]" 0 256]
  by (auto simp: download_share_def GetShare_def example_verifier_def example_order_limit_def
      example_limit_def Let_def)

subsection \<open>The classification of the shares in \<open>Verify\<close>\<close>

lemma map_of_update_same [simp]: "map_of (AList.update k v al) k = Some v"
  by (simp add: update_conv')




subsection \<open>The report of \<open>Verify\<close>\<close>

text \<open>
  Claim C5 does not hold of \<open>Verify\<close> as it is written. The branch of the unknown transport
  error does not end the turn of the loop, so a node whose error is a transport error
  with the code \<open>NotFound\<close> is put into the contained nodes and into the failed nodes. Here
  the node 14 of the example segment answers so and the four other nodes deliver their
  shares: \<open>Verify\<close> completes without error and reports the node 14 among the fails and
  among the pending audits.
\<close>

theorem Verify_reports_node_twice:
  "fst (Verify (example_verifier 128 (\<lambda>node. if node = 14 then Some transport_not_found else None)
                 example_limits (Inr example_pointer))
          example_stripe (\<lambda>node. False))
     = Returned
         (Some \<lparr>Successes = [10, 11, 12, 13], Fails = [14], Offlines = [],
                PendingAudits =
                  [\<lparr>Pending_NodeID = 14, Pending_PieceID = 7, StripeIndex = 0, ShareSize = 256,
                    ExpectedShareHash = [1, 2, 3],
                    Pending_Path = ''project/s0/bucket/object''\<rparr>]\<rparr>)
         None
   \<and> \<not> report_partitions
         \<lparr>Successes = [10, 11, 12, 13], Fails = [14], Offlines = [],
          PendingAudits =
            [\<lparr>Pending_NodeID = 14, Pending_PieceID = 7, StripeIndex = 0, ShareSize = 256,
              ExpectedShareHash = [1, 2, 3],
              Pending_Path = ''project/s0/bucket/object''\<rparr>]\<rparr>
         example_pointer (\<lambda>node. False)"
proof -
  have "fst (Verify (example_verifier 128 (\<lambda>node. if node = 14 then Some transport_not_found else None)
                 example_limits (Inr example_pointer))
          example_stripe (\<lambda>node. False))
     = Returned
         (Some \<lparr>Successes = [10, 11, 12, 13], Fails = [14], Offlines = [],
                PendingAudits =
                  [\<lparr>Pending_NodeID = 14, Pending_PieceID = 7, StripeIndex = 0, ShareSize = 256,
                    ExpectedShareHash = [1, 2, 3],
                    Pending_Path = ''project/s0/bucket/object''\<rparr>]\<rparr>)
         None"
    by code_simp
  then show ?thesis by (simp add: report_partitions_def)
qed

subsection \<open>Too few shares\<close>

lemma sharesToAudit_classify_share:
  "sharesToAudit (classify_share pieceNum share st)
     = (if Error share = None then AList.update pieceNum share (sharesToAudit st)
        else sharesToAudit st)"
  by (auto simp: classify_share_def Let_def)

lemma offlineNodes_classify_share:
  "set (offlineNodes st) \<subseteq> set (offlineNodes (classify_share pieceNum share st))"
  by (auto simp: classify_share_def Let_def split: option.splits)

lemma offlineNodes_classify_shares:
  "set (offlineNodes st) \<subseteq> set (offlineNodes (classify_shares shares st))"
proof (induction shares arbitrary: st)
  case Nil
  then show ?case by (simp add: classify_shares_def)
next
  case (Cons a shares)
  obtain pieceNum share where a: "a = (pieceNum, share)" by (cases a)
  have "set (offlineNodes st) \<subseteq> set (offlineNodes (classify_share pieceNum share st))"
    by (rule offlineNodes_classify_share)
  also have "\<dots> \<subseteq> set (offlineNodes (classify_shares shares (classify_share pieceNum share st)))"
    by (rule Cons.IH)
  finally show ?case by (simp add: classify_shares_def a)
qed

lemma offline_share_reported:
  assumes "(pieceNum, share) \<in> set shares" and "Error share = Some err"
    and "transport_Error_Has err" and "Is_context_DeadlineExceeded err \<or> IsRPC err Unknown"
  shows "Share_NodeID share \<in> set (offlineNodes (classify_shares shares st))"
  using assms(1)
proof (induction shares arbitrary: st)
  case Nil
  then show ?case by simp
next
  case (Cons a shares)
  show ?case
  proof (cases "a = (pieceNum, share)")
    case True
    have "Share_NodeID share \<in> set (offlineNodes (classify_share pieceNum share st))"
      using assms(2-4) by (auto simp: classify_share_def)
    then show ?thesis
      using offlineNodes_classify_shares [of "classify_share pieceNum share st" shares] True
      by (auto simp: classify_shares_def)
  next
    case False
    with Cons.prems have "(pieceNum, share) \<in> set shares" by simp
    from Cons.IH [OF this] show ?thesis
      by (cases a) (simp add: classify_shares_def)
  qed
qed

lemma sharesToAudit_classify_shares:
  assumes "distinct (map fst shares)"
    and "\<forall>key \<in> set (map fst shares). key \<notin> fst ` set (sharesToAudit st)"
  shows "sharesToAudit (classify_shares shares st)
     = sharesToAudit st @ filter (\<lambda>(pieceNum, share). Error share = None) shares"
  using assms
proof (induction shares arbitrary: st)
  case Nil
  then show ?case by (simp add: classify_shares_def)
next
  case (Cons a shares)
  obtain pieceNum share where a: "a = (pieceNum, share)" by (cases a)
  have fresh: "pieceNum \<notin> fst ` set (sharesToAudit st)" using Cons.prems(2) a by simp
  have "\<forall>key \<in> set (map fst shares).
      key \<notin> fst ` set (sharesToAudit (classify_share pieceNum share st))"
    using Cons.prems a by (auto simp: sharesToAudit_classify_share update_fresh fresh image_iff)
  with Cons.IH [of "classify_share pieceNum share st"] Cons.prems(1) a
  have "sharesToAudit (classify_shares shares (classify_share pieceNum share st))
      = sharesToAudit (classify_share pieceNum share st)
        @ filter (\<lambda>(pieceNum, share). Error share = None) shares"
    by simp
  then show ?case
    using fresh by (simp add: classify_shares_def a sharesToAudit_classify_share update_fresh)
qed

lemma all_nil_started: "\<forall>limit \<in> set limits. limit = None \<Longrightarrow> started_from i limits = []"
  by (induction limits arbitrary: i) (simp_all add: started_from_simps)

text \<open>
  Claim C6. Take a call of \<open>Verify\<close> that got its order limits and found the segment not
  deleted after the download, the pointer being remote. The download returns; when fewer
  than \<open>k\<close> of its shares have no error, \<open>Verify\<close> returns the error ``not enough shares''
  together with a report without successes and pending audits, whose offline nodes are
  the nodes without an order limit and the nodes whose dial timed out or failed, and it
  changes no pointer. When every order limit is \<open>nil\<close> and \<open>k\<close> is positive, \<open>Verify\<close>
  does not block and returns ``not enough shares'' with all these nodes offline.
\<close>

theorem Verify_not_enough_shares:
  assumes limits: "orders_CreateAuditOrderLimits verifier
        (audit_createBucketID verifier (SegmentPath stripe)) (Segment stripe) skip = Inr limits"
    and alive: "checkIfSegmentDeleted verifier (SegmentPath stripe) (Some (Segment stripe))
        = Inr newPointer"
    and remote: "Remote (Segment stripe) = Some remote"
  shows "\<exists>shares.
      DownloadShares verifier limits (Index stripe) (GetErasureShareSize (Redundancy remote))
        = Some (shares, None)
      \<and> (int (length (filter (\<lambda>(pieceNum, share). Error share = None) shares))
            < sint (GetMinReq (Redundancy remote)) \<longrightarrow>
         (\<exists>report.
            Verify verifier stripe skip
              = (Returned (Some report)
                   (Some (ErrNotEnoughShares
                      (int (length (filter (\<lambda>(pieceNum, share). Error share = None) shares)))
                      (sint (GetMinReq (Redundancy remote))))), [])
            \<and> Successes report = [] \<and> PendingAudits report = []
            \<and> set (getOfflineNodes (Segment stripe) limits skip) \<subseteq> set (Offlines report)
            \<and> (\<forall>(pieceNum, share) \<in> set shares. \<forall>err.
                  Error share = Some err \<and> transport_Error_Has err \<and>
                  (Is_context_DeadlineExceeded err \<or> IsRPC err Unknown) \<longrightarrow>
                  Share_NodeID share \<in> set (Offlines report))))
      \<and> ((\<forall>limit \<in> set limits. limit = None) \<and> 0 < sint (GetMinReq (Redundancy remote)) \<longrightarrow>
         Verify verifier stripe skip
           = (Returned (Some (Report_of [] [] (getOfflineNodes (Segment stripe) limits skip) []))
                (Some (ErrNotEnoughShares 0 (sint (GetMinReq (Redundancy remote))))), []))"
proof -
  let ?size = "GetErasureShareSize (Redundancy remote)"
  let ?shares = "map (\<lambda>(i, limit). (int i, download_share verifier (Index stripe) ?size i limit))
                   (started_from 0 limits)"
  let ?init = "\<lparr>sharesToAudit = [], offlineNodes = getOfflineNodes (Segment stripe) limits skip,
               failedNodes = [], containedNodes = []\<rparr>"
  let ?st = "classify_shares ?shares ?init"
  let ?good = "filter (\<lambda>(pieceNum, share). Error share = None) ?shares"
  let ?k = "sint (GetMinReq (Redundancy remote))"
  have size: "GetErasureShareSize (GetRedundancy (GetRemote (Segment stripe))) = ?size"
    using remote by (simp add: GetRemote_def GetRedundancy_def)
  have download: "DownloadShares verifier limits (Index stripe) ?size = Some (?shares, None)"
    by (rule DownloadShares_eq)
  have distinct: "distinct (map fst ?shares)"
    using distinct_started_from [of 0 limits]
    by (simp add: distinct_map comp_def case_prod_unfold inj_on_def)
  have audit: "sharesToAudit ?st = ?good"
    using sharesToAudit_classify_shares [OF distinct, of ?init] by simp
  have verify: "Verify verifier stripe skip = Verify_audit verifier stripe remote ?shares ?st"
    using limits alive remote download by (simp add: Verify_def Let_def size)
  have few: "Verify verifier stripe skip
      = (Returned (Some (Report_of [] (failedNodes ?st) (offlineNodes ?st) []))
           (Some (ErrNotEnoughShares (int (length ?good)) ?k)), [])"
    if "int (length ?good) < ?k"
    using that by (simp add: verify Verify_audit_def Let_def audit)
  have offline: "set (getOfflineNodes (Segment stripe) limits skip) \<subseteq> set (offlineNodes ?st)"
    using offlineNodes_classify_shares [of ?init ?shares] by simp
  have dialled: "\<forall>x \<in> set ?shares. \<forall>err.
      Error (snd x) = Some err \<and> transport_Error_Has err \<and>
      (Is_context_DeadlineExceeded err \<or> IsRPC err Unknown) \<longrightarrow>
      Share_NodeID (snd x) \<in> set (offlineNodes ?st)"
  proof (intro ballI allI impI)
    fix x err
    assume x: "x \<in> set ?shares"
      and e: "Error (snd x) = Some err \<and> transport_Error_Has err \<and>
        (Is_context_DeadlineExceeded err \<or> IsRPC err Unknown)"
    from x have "(fst x, snd x) \<in> set ?shares" by simp
    then show "Share_NodeID (snd x) \<in> set (offlineNodes ?st)"
      using e by (intro offline_share_reported [of "fst x" "snd x" ?shares err]) simp_all
  qed
  have first: "int (length ?good) < ?k \<longrightarrow>
      (\<exists>report.
          Verify verifier stripe skip
            = (Returned (Some report) (Some (ErrNotEnoughShares (int (length ?good)) ?k)), [])
          \<and> Successes report = [] \<and> PendingAudits report = []
          \<and> set (getOfflineNodes (Segment stripe) limits skip) \<subseteq> set (Offlines report)
          \<and> (\<forall>(pieceNum, share) \<in> set ?shares. \<forall>err.
                Error share = Some err \<and> transport_Error_Has err \<and>
                (Is_context_DeadlineExceeded err \<or> IsRPC err Unknown) \<longrightarrow>
                Share_NodeID share \<in> set (Offlines report)))"
  proof
    assume less: "int (length ?good) < ?k"
    let ?report = "Report_of [] (failedNodes ?st) (offlineNodes ?st) []"
    have "Verify verifier stripe skip
        = (Returned (Some ?report) (Some (ErrNotEnoughShares (int (length ?good)) ?k)), [])"
      using few [OF less] .
    moreover have "Successes ?report = []" "PendingAudits ?report = []"
      by (simp_all add: Report_of_def)
    moreover have "set (getOfflineNodes (Segment stripe) limits skip) \<subseteq> set (Offlines ?report)"
      using offline by (simp add: Report_of_def)
    moreover have "\<forall>(pieceNum, share) \<in> set ?shares. \<forall>err.
        Error share = Some err \<and> transport_Error_Has err \<and>
        (Is_context_DeadlineExceeded err \<or> IsRPC err Unknown) \<longrightarrow>
        Share_NodeID share \<in> set (Offlines ?report)"
      using dialled by (simp add: Report_of_def case_prod_unfold)
    ultimately show "\<exists>report.
          Verify verifier stripe skip
            = (Returned (Some report) (Some (ErrNotEnoughShares (int (length ?good)) ?k)), [])
          \<and> Successes report = [] \<and> PendingAudits report = []
          \<and> set (getOfflineNodes (Segment stripe) limits skip) \<subseteq> set (Offlines report)
          \<and> (\<forall>(pieceNum, share) \<in> set ?shares. \<forall>err.
                Error share = Some err \<and> transport_Error_Has err \<and>
                (Is_context_DeadlineExceeded err \<or> IsRPC err Unknown) \<longrightarrow>
                Share_NodeID share \<in> set (Offlines report))"
      by blast
  qed
  have second: "(\<forall>limit \<in> set limits. limit = None) \<and> 0 < ?k \<longrightarrow>
      Verify verifier stripe skip
        = (Returned (Some (Report_of [] [] (getOfflineNodes (Segment stripe) limits skip) []))
             (Some (ErrNotEnoughShares 0 ?k)), [])"
  proof
    assume nil: "(\<forall>limit \<in> set limits. limit = None) \<and> 0 < ?k"
    then have "started_from 0 limits = []" by (simp add: all_nil_started)
    then have empty: "?shares = []" by simp
    then have "?st = ?init" by (simp add: classify_shares_def)
    then show "Verify verifier stripe skip
        = (Returned (Some (Report_of [] [] (getOfflineNodes (Segment stripe) limits skip) []))
             (Some (ErrNotEnoughShares 0 ?k)), [])"
      using nil by (simp add: verify Verify_audit_def Let_def empty)
  qed
  from download first second show ?thesis by blast
qed

theorem Verify_not_enough_shares_witness:
  "Verify (example_verifier 128 (\<lambda>node. None) [None, None, None, None, None] (Inr example_pointer))
     example_stripe (\<lambda>node. False)
     = (Returned (Some \<lparr>Successes = [], Fails = [], Offlines = [10, 11, 12, 13, 14],
                        PendingAudits = []\<rparr>)
          (Some (ErrNotEnoughShares 0 2)), [])"
proof -
  let ?verifier = "example_verifier 128 (\<lambda>node. None) [None, None, None, None, None]
                     (Inr example_pointer)"
  let ?limits = "[None, None, None, None, None] :: AddressedOrderLimit option list"
  have limits: "orders_CreateAuditOrderLimits ?verifier
      (audit_createBucketID ?verifier (SegmentPath example_stripe)) (Segment example_stripe)
      (\<lambda>node. False) = Inr ?limits"
    by (simp add: example_verifier_def)
  have alive: "checkIfSegmentDeleted ?verifier (SegmentPath example_stripe)
      (Some (Segment example_stripe)) = Inr example_pointer"
    by (simp add: checkIfSegmentDeleted_def example_verifier_def example_stripe_def)
  have remote: "Remote (Segment example_stripe) = Some example_remote"
    by (simp add: example_stripe_def example_pointer_def)
  have nil: "(\<forall>limit \<in> set ?limits. limit = None)
      \<and> 0 < sint (GetMinReq (Redundancy example_remote))"
    by (simp add: GetMinReq_def example_remote_def example_redundancy_def)
  from Verify_not_enough_shares [OF limits alive remote] nil
  have "Verify ?verifier example_stripe (\<lambda>node. False)
      = (Returned (Some (Report_of [] []
                     (getOfflineNodes (Segment example_stripe) ?limits (\<lambda>node. False)) []))
           (Some (ErrNotEnoughShares 0 (sint (GetMinReq (Redundancy example_remote))))), [])"
    by blast
  then show ?thesis
    by (simp add: example_stripe_def example_pointer_def example_remote_def
        example_redundancy_def example_pieces_def GetMinReq_def getOfflineNodes_def
        Report_of_def GetRemote_def GetRemotePieces_def elems_def)
qed


end
